theory Spec2Isabelle
  imports Complex_Main "HOL-Library.AList"
begin

section \<open>JavaScript values used by the interpreter\<close>

subsection \<open>Numbers\<close>

text \<open>
  A JavaScript number is an IEEE double. The interpreter only adds numbers, halves them,
  multiplies by 1 or 1000 and compares with 0 and 1, and what the specification says about
  numbers turns on not-a-number. The model keeps the four kinds of value apart (finite,
  the two infinities, NaN) and computes finite values exactly: rounding, overflow of a
  finite result and the sign of zero are left out.
\<close>

datatype number = Fin rat | PInf | NInf | NaN

fun nadd :: "number \<Rightarrow> number \<Rightarrow> number" where
  "nadd NaN _ = NaN"
| "nadd _ NaN = NaN"
| "nadd PInf NInf = NaN"
| "nadd NInf PInf = NaN"
| "nadd PInf _ = PInf"
| "nadd _ PInf = PInf"
| "nadd NInf _ = NInf"
| "nadd _ NInf = NInf"
| "nadd (Fin a) (Fin b) = Fin (a + b)"

fun nmul :: "number \<Rightarrow> number \<Rightarrow> number" where
  "nmul NaN _ = NaN"
| "nmul _ NaN = NaN"
| "nmul (Fin a) (Fin b) = Fin (a * b)"
| "nmul (Fin a) PInf = (if a = 0 then NaN else if 0 < a then PInf else NInf)"
| "nmul (Fin a) NInf = (if a = 0 then NaN else if 0 < a then NInf else PInf)"
| "nmul PInf (Fin b) = (if b = 0 then NaN else if 0 < b then PInf else NInf)"
| "nmul NInf (Fin b) = (if b = 0 then NaN else if 0 < b then NInf else PInf)"
| "nmul PInf PInf = PInf"
| "nmul NInf NInf = PInf"
| "nmul PInf NInf = NInf"
| "nmul NInf PInf = NInf"

text \<open>\<open>v / 2\<close>, as the radius getters of Circle compute it.\<close>

fun nhalf :: "number \<Rightarrow> number" where
  "nhalf (Fin a) = Fin (a / 2)"
| "nhalf v = v"

text \<open>Truthiness of a number: 0 and NaN are falsy.\<close>

fun truthyNum :: "number \<Rightarrow> bool" where
  "truthyNum (Fin a) = (a \<noteq> 0)"
| "truthyNum NaN = False"
| "truthyNum _ = True"

subsection \<open>Strings\<close>

text \<open>
  Script text is modelled as a list of 8-bit characters and read as ASCII. White space is
  what \<open>trim\<close>, the regular expression class \<open>\s\<close> and the string-to-number conversion agree
  on within ASCII: tab, line feed, vertical tab, form feed, carriage return and space.
\<close>

definition isWhite :: "char \<Rightarrow> bool" where
  "isWhite c = (c = CHR 0x09 \<or> c = CHR 0x0A \<or> c = CHR 0x0B \<or> c = CHR 0x0C \<or> c = CHR 0x0D \<or> c = CHR '' '')"

definition trim :: "string \<Rightarrow> string" where
  "trim s = rev (dropWhile isWhite (rev (dropWhile isWhite s)))"

text \<open>\<open>s.split(sep)\<close> for a one-character separator: the empty string gives one empty piece.\<close>

fun split :: "char \<Rightarrow> string \<Rightarrow> string list" where
  "split sep [] = [[]]"
| "split sep (c # cs) =
     (if c = sep then [] # split sep cs
      else (case split sep cs of w # ws \<Rightarrow> (c # w) # ws | [] \<Rightarrow> [[c]]))"

text \<open>\<open>xs[i]\<close> on an array: \<open>undefined\<close> (None) past the end.\<close>

fun elemAt :: "'a list \<Rightarrow> nat \<Rightarrow> 'a option" where
  "elemAt [] i = None"
| "elemAt (x # xs) 0 = Some x"
| "elemAt (x # xs) (Suc i) = elemAt xs i"

text \<open>\<open>xs.join(sep)\<close> on an array of strings.\<close>

fun join :: "string \<Rightarrow> string list \<Rightarrow> string" where
  "join sep [] = []"
| "join sep [w] = w"
| "join sep (w # ws) = w @ sep @ join sep ws"

text \<open>\<open>String(v)\<close> and \<open>${v}\<close> for a value that is a string or \<open>undefined\<close>.\<close>

fun str :: "string option \<Rightarrow> string" where
  "str None = ''undefined''"
| "str (Some s) = s"

definition isUpper :: "char \<Rightarrow> bool" where
  "isUpper c = (c \<in> set ''ABCDEFGHIJKLMNOPQRSTUVWXYZ'')"

definition isLower :: "char \<Rightarrow> bool" where
  "isLower c = (c \<in> set ''abcdefghijklmnopqrstuvwxyz'')"

definition isDigit :: "char \<Rightarrow> bool" where
  "isDigit c = (c \<in> set ''0123456789'')"

definition isLetter :: "char \<Rightarrow> bool" where
  "isLetter c = (isUpper c \<or> isLower c)"

definition isWordChar :: "char \<Rightarrow> bool" where
  "isWordChar c = (isLetter c \<or> isDigit c \<or> c = CHR ''_'')"

definition toLower :: "char \<Rightarrow> char" where
  "toLower c =
     (case map_of (zip ''ABCDEFGHIJKLMNOPQRSTUVWXYZ'' ''abcdefghijklmnopqrstuvwxyz'') c of
        Some l \<Rightarrow> l
      | None \<Rightarrow> c)"

subsection \<open>String to number\<close>

text \<open>
  \<open>Number(s)\<close> on a string, after the StringNumericLiteral grammar of the language: white
  space around the literal is dropped, the empty string is 0, a literal is a signed
  decimal (digits, an optional fraction, an optional exponent), a signed \<open>Infinity\<close>, or an
  unsigned binary, octal or hexadecimal integer with its \<open>0b\<close>, \<open>0o\<close>, \<open>0x\<close> prefix.
  Everything else is NaN.
\<close>

text \<open>The value of a digit in bases up to 36; 36 for a character that is no digit.\<close>

fun indexOf :: "'a \<Rightarrow> 'a list \<Rightarrow> nat" where
  "indexOf x [] = 0"
| "indexOf x (y # ys) = (if x = y then 0 else Suc (indexOf x ys))"

definition digitVal :: "char \<Rightarrow> nat" where
  "digitVal c = indexOf (toLower c) ''0123456789abcdefghijklmnopqrstuvwxyz''"

definition digitsIn :: "nat \<Rightarrow> string \<Rightarrow> bool" where
  "digitsIn base ds = (ds \<noteq> [] \<and> (\<forall>c \<in> set ds. digitVal c < base))"

definition natOf :: "nat \<Rightarrow> string \<Rightarrow> nat" where
  "natOf base ds = foldl (\<lambda>acc c. acc * base + digitVal c) 0 ds"

definition pow10 :: "int \<Rightarrow> rat" where
  "pow10 e = (if 0 \<le> e then 10 ^ nat e else 1 / 10 ^ nat (- e))"

text \<open>The exponent part: nothing, or \<open>e\<close>/\<open>E\<close>, an optional sign and at least one digit.\<close>

fun exponentPart :: "string \<Rightarrow> int option" where
  "exponentPart [] = Some 0"
| "exponentPart (c # cs) =
     (if c = CHR ''e'' \<or> c = CHR ''E'' then
        (case cs of
           s # ds \<Rightarrow>
             if s = CHR ''-'' then (if digitsIn 10 ds then Some (- int (natOf 10 ds)) else None)
             else if s = CHR ''+'' then (if digitsIn 10 ds then Some (int (natOf 10 ds)) else None)
             else (if digitsIn 10 cs then Some (int (natOf 10 cs)) else None)
         | [] \<Rightarrow> None)
      else None)"

text \<open>An unsigned decimal literal: \<open>12\<close>, \<open>12.\<close>, \<open>12.5\<close>, \<open>.5\<close>, each with an optional exponent.\<close>

definition unsignedDecimal :: "string \<Rightarrow> rat option" where
  "unsignedDecimal s =
     (let ip = takeWhile isDigit s; r = dropWhile isDigit s in
      (case r of
         c # r' \<Rightarrow>
           if c = CHR ''.'' then
             (let fp = takeWhile isDigit r'; r'' = dropWhile isDigit r' in
              if ip = [] \<and> fp = [] then None
              else (case exponentPart r'' of
                      None \<Rightarrow> None
                    | Some e \<Rightarrow> Some (of_nat (natOf 10 (ip @ fp)) * pow10 (e - int (length fp)))))
           else if ip = [] then None
           else (case exponentPart r of
                   None \<Rightarrow> None
                 | Some e \<Rightarrow> Some (of_nat (natOf 10 ip) * pow10 e))
       | [] \<Rightarrow> if ip = [] then None else Some (of_nat (natOf 10 ip))))"

definition prefixed :: "string \<Rightarrow> (nat \<times> string) option" where
  "prefixed s =
     (case s of
        z # p # ds \<Rightarrow>
          if z \<noteq> CHR ''0'' then None
          else if p = CHR ''x'' \<or> p = CHR ''X'' then Some (16, ds)
          else if p = CHR ''o'' \<or> p = CHR ''O'' then Some (8, ds)
          else if p = CHR ''b'' \<or> p = CHR ''B'' then Some (2, ds)
          else None
      | _ \<Rightarrow> None)"

definition stringToNumber :: "string \<Rightarrow> number" where
  "stringToNumber s =
     (let t = trim s in
      if t = [] then Fin 0
      else (case prefixed t of
              Some (base, ds) \<Rightarrow> if digitsIn base ds then Fin (of_nat (natOf base ds)) else NaN
            | None \<Rightarrow>
                if t = ''Infinity'' \<or> t = ''+Infinity'' then PInf
                else if t = ''-Infinity'' then NInf
                else if hd t = CHR ''-'' then
                  (case unsignedDecimal (tl t) of None \<Rightarrow> NaN | Some q \<Rightarrow> Fin (- q))
                else if hd t = CHR ''+'' then
                  (case unsignedDecimal (tl t) of None \<Rightarrow> NaN | Some q \<Rightarrow> Fin q)
                else (case unsignedDecimal t of None \<Rightarrow> NaN | Some q \<Rightarrow> Fin q)))"

text \<open>\<open>Number(v)\<close> for a token of the line: a missing token is \<open>undefined\<close>, which is NaN.\<close>

fun toNumber :: "string option \<Rightarrow> number" where
  "toNumber None = NaN"
| "toNumber (Some s) = stringToNumber s"

subsection \<open>Values written to the drawing surface\<close>

text \<open>
  A value that is a string, a number, \<open>undefined\<close> or \<open>null\<close>. Colours, attribute values and
  the tokens of a line are of this kind. The surface stores strings; the model stores the
  value that was written and never prints a number, so the string form of a number is
  the number itself.
\<close>

datatype jsval = Str string | Num number | Undefined | Null

fun val :: "string option \<Rightarrow> jsval" where
  "val None = Undefined"
| "val (Some s) = Str s"

text \<open>What reading back a stored attribute gives: the string form of the value written.\<close>

fun domString :: "jsval \<Rightarrow> jsval" where
  "domString Undefined = Str ''undefined''"
| "domString Null = Str ''null''"
| "domString v = v"

text \<open>
  An element of the drawing surface: its tag, the \<open>fill\<close> of its style, its text content and
  its attributes, in the order they were first set. Whether the surface accepts a colour is
  its own business: the style keeps what it is given.
\<close>

record element =
  tagName :: string
  styleFill :: jsval
  textContent :: string
  attrs :: "(string \<times> jsval) list"

definition createElementNS :: "string \<Rightarrow> element" where
  "createElementNS tag = \<lparr>tagName = tag, styleFill = Str [], textContent = [], attrs = []\<rparr>"

definition setAttributeNS :: "string \<Rightarrow> jsval \<Rightarrow> element \<Rightarrow> element" where
  "setAttributeNS a v el = el\<lparr>attrs := AList.update a v (attrs el)\<rparr>"

definition getAttributeNS :: "string \<Rightarrow> element \<Rightarrow> jsval" where
  "getAttributeNS a el = (case map_of (attrs el) a of None \<Rightarrow> Null | Some v \<Rightarrow> domString v)"

section \<open>The shape model (shape.ts)\<close>

subsection \<open>Point\<close>

record point =
  p_x :: number
  p_y :: number

definition Point :: "number \<Rightarrow> number \<Rightarrow> point" where
  "Point x y = \<lparr>p_x = x, p_y = y\<rparr>"

text \<open>An argument \<open>number | null\<close> is a \<open>number option\<close>, None for \<open>null\<close>.\<close>

definition Point_moveBy :: "number option \<Rightarrow> number option \<Rightarrow> point \<Rightarrow> point" where
  "Point_moveBy x y p =
     \<lparr>p_x = nadd (p_x p) (case x of None \<Rightarrow> Fin 0 | Some v \<Rightarrow> v),
      p_y = nadd (p_y p) (case y of None \<Rightarrow> Fin 0 | Some v \<Rightarrow> v)\<rparr>"

definition Point_moveTo :: "number option \<Rightarrow> number option \<Rightarrow> point \<Rightarrow> point" where
  "Point_moveTo x y p =
     \<lparr>p_x = (case x of None \<Rightarrow> p_x p | Some v \<Rightarrow> v),
      p_y = (case y of None \<Rightarrow> p_y p | Some v \<Rightarrow> v)\<rparr>"

subsection \<open>Stroke\<close>

record stroke =
  stroke_color :: jsval
  stroke_width :: number

text \<open>
  The constructor's default colour stands in for an argument that is \<open>undefined\<close>. The width
  is always handed over, and \<open>new Stroke()\<close> is written with the defaults:
  \<open>Stroke Undefined (Fin 1)\<close>.
\<close>

definition Stroke :: "jsval \<Rightarrow> number \<Rightarrow> stroke" where
  "Stroke color width =
     \<lparr>stroke_color = (case color of Undefined \<Rightarrow> Str ''transparent'' | _ \<Rightarrow> color),
      stroke_width = width\<rparr>"

subsection \<open>Shapes\<close>

text \<open>
  The classes of shape.ts are Text, Rectangle, Circle and Line, all extending the abstract
  Shape. The interpreter also names a class Polygon, which shape.ts does not define.
\<close>

datatype variant = Text | Rectangle | Circle | Line | Polygon

text \<open>
  \<open>points\<close> holds the two Point objects the constructor allocates, \<open>points[0]\<close> and
  \<open>points[1]\<close>; no method hands a Point out or replaces one, so they are kept in the shape.
  \<open>vertices\<close> is the vertex list of a Polygon.
\<close>

record shape =
  variant :: variant
  shape_type :: string
  shape_name :: string
  points :: "point \<times> point"
  shape_stroke :: stroke
  domElement :: element
  vertices :: "point list"

definition Shape :: "variant \<Rightarrow> string \<Rightarrow> string \<Rightarrow> shape" where
  "Shape v type name =
     \<lparr>variant = v, shape_type = type, shape_name = name,
      points = (Point (Fin 0) (Fin 0), Point (Fin 100) (Fin 100)),
      shape_stroke = Stroke Undefined (Fin 1),
      domElement = createElementNS type,
      vertices = []\<rparr>"

definition Text_create :: "string \<Rightarrow> shape" where
  "Text_create name = Shape Text ''text'' name"

definition Rectangle_create :: "string \<Rightarrow> shape" where
  "Rectangle_create name = Shape Rectangle ''rect'' name"

definition Circle_create :: "string \<Rightarrow> shape" where
  "Circle_create name = Shape Circle ''ellipse'' name"

definition Line_create :: "string \<Rightarrow> shape" where
  "Line_create name = Shape Line ''line'' name"

text \<open>
  Modelled from the spec: the class Polygon, which the interpreter imports from shape.ts
  and shape.ts lacks. After the specification it is one more variant of Shape, created
  with the default origin, extent and stroke on an element of its own drawing primitive,
  it keeps a list of vertices, and \<open>setPoints\<close> replaces that list.
\<close>

definition Polygon_create :: "string \<Rightarrow> shape" where
  "Polygon_create name = Shape Polygon ''polygon'' name"

definition Polygon_setPoints :: "point list \<Rightarrow> shape \<Rightarrow> shape" where
  "Polygon_setPoints ps sh = sh\<lparr>vertices := ps\<rparr>"

text \<open>The getters of Shape.\<close>

definition shape_x :: "shape \<Rightarrow> number" where
  "shape_x sh = p_x (fst (points sh))"

definition shape_y :: "shape \<Rightarrow> number" where
  "shape_y sh = p_y (fst (points sh))"

definition shape_width :: "shape \<Rightarrow> number" where
  "shape_width sh = p_x (snd (points sh))"

definition shape_height :: "shape \<Rightarrow> number" where
  "shape_height sh = p_y (snd (points sh))"

definition radiusX :: "shape \<Rightarrow> number" where
  "radiusX sh = nhalf (p_x (snd (points sh)))"

definition radiusY :: "shape \<Rightarrow> number" where
  "radiusY sh = nhalf (p_y (snd (points sh)))"

text \<open>\<open>fill\<close>: the style's fill, except on a Line, where it is the \<open>stroke\<close> attribute.\<close>

definition fill :: "shape \<Rightarrow> jsval" where
  "fill sh =
     (case variant sh of
        Line \<Rightarrow> getAttributeNS ''stroke'' (domElement sh)
      | _ \<Rightarrow> styleFill (domElement sh))"

definition set_fill :: "jsval \<Rightarrow> shape \<Rightarrow> shape" where
  "set_fill v sh =
     (case variant sh of
        Line \<Rightarrow> sh\<lparr>domElement := setAttributeNS ''stroke'' v (domElement sh)\<rparr>
      | _ \<Rightarrow> sh\<lparr>domElement := (domElement sh)\<lparr>styleFill := v\<rparr>\<rparr>)"

text \<open>\<open>text\<close>: the setter writes the text content, the getter returns the style's fill.\<close>

definition get_text :: "shape \<Rightarrow> jsval" where
  "get_text sh = styleFill (domElement sh)"

definition set_text :: "string \<Rightarrow> shape \<Rightarrow> shape" where
  "set_text t sh = sh\<lparr>domElement := (domElement sh)\<lparr>textContent := t\<rparr>\<rparr>"

subsection \<open>Moving, sizing and stroking a shape\<close>

fun numOrNull :: "number option \<Rightarrow> jsval" where
  "numOrNull None = Null"
| "numOrNull (Some v) = Num v"

definition setAttrs :: "(string \<times> jsval) list \<Rightarrow> shape \<Rightarrow> shape" where
  "setAttrs kvs sh = sh\<lparr>domElement := foldl (\<lambda>el (k, v). setAttributeNS k v el) (domElement sh) kvs\<rparr>"

definition points0 :: "(point \<Rightarrow> point) \<Rightarrow> shape \<Rightarrow> shape" where
  "points0 f sh = sh\<lparr>points := (f (fst (points sh)), snd (points sh))\<rparr>"

definition points1 :: "(point \<Rightarrow> point) \<Rightarrow> shape \<Rightarrow> shape" where
  "points1 f sh = sh\<lparr>points := (fst (points sh), f (snd (points sh)))\<rparr>"

text \<open>The methods of the abstract Shape, which Text and Rectangle inherit unchanged.\<close>

definition Shape_moveBy :: "number option \<Rightarrow> number option \<Rightarrow> shape \<Rightarrow> shape" where
  "Shape_moveBy x y sh =
     (let sh1 = points0 (Point_moveBy x y) sh in
      setAttrs [(''x'', Num (shape_x sh1)), (''y'', Num (shape_y sh1))] sh1)"

definition Shape_moveTo :: "number option \<Rightarrow> number option \<Rightarrow> shape \<Rightarrow> shape" where
  "Shape_moveTo x y sh =
     (let sh1 = points0 (Point_moveTo x y) sh in
      setAttrs [(''x'', Num (shape_x sh1)), (''y'', Num (shape_y sh1))] sh1)"

definition Shape_sizeBy :: "number option \<Rightarrow> number option \<Rightarrow> shape \<Rightarrow> shape" where
  "Shape_sizeBy x y sh =
     (let sh1 = points1 (Point_moveBy x y) sh in
      setAttrs [(''width'', Num (shape_width sh1)), (''height'', Num (shape_height sh1))] sh1)"

definition Shape_sizeTo :: "number option \<Rightarrow> number option \<Rightarrow> shape \<Rightarrow> shape" where
  "Shape_sizeTo x y sh =
     (let sh1 = points1 (Point_moveTo x y) sh in
      setAttrs [(''width'', Num (shape_width sh1)), (''height'', Num (shape_height sh1))] sh1)"

text \<open>
  \<open>setStroke\<close>: a \<open>null\<close> colour or width keeps the current one; the new Stroke replaces the
  old one whole.
\<close>

definition Shape_setStroke :: "jsval \<Rightarrow> number option \<Rightarrow> shape \<Rightarrow> shape" where
  "Shape_setStroke color width sh =
     (let st = Stroke (case color of Null \<Rightarrow> stroke_color (shape_stroke sh) | _ \<Rightarrow> color)
                      (case width of None \<Rightarrow> stroke_width (shape_stroke sh) | Some w \<Rightarrow> w);
          sh1 = sh\<lparr>shape_stroke := st\<rparr> in
      setAttrs [(''stroke'', stroke_color st), (''stroke-width'', Num (stroke_width st))] sh1)"

text \<open>Circle: the centre and the radii are derived from the two points.\<close>

definition Circle_moveBy :: "number option \<Rightarrow> number option \<Rightarrow> shape \<Rightarrow> shape" where
  "Circle_moveBy x y sh =
     (let sh1 = points0 (Point_moveBy x y) sh in
      setAttrs [(''cx'', Num (nadd (shape_x sh1) (radiusX sh1))),
                (''cy'', Num (nadd (shape_y sh1) (radiusY sh1)))] sh1)"

definition Circle_moveTo :: "number option \<Rightarrow> number option \<Rightarrow> shape \<Rightarrow> shape" where
  "Circle_moveTo x y sh =
     (let sh1 = points0 (Point_moveTo x y) sh in
      setAttrs [(''cx'', Num (nadd (shape_x sh1) (radiusX sh1))),
                (''cy'', Num (nadd (shape_y sh1) (radiusY sh1)))] sh1)"

definition Circle_sizeBy :: "number option \<Rightarrow> number option \<Rightarrow> shape \<Rightarrow> shape" where
  "Circle_sizeBy x y sh =
     (let sh1 = points1 (Point_moveBy x y) sh in
      setAttrs [(''rx'', Num (radiusX sh1)), (''ry'', Num (radiusY sh1))] sh1)"

definition Circle_sizeTo :: "number option \<Rightarrow> number option \<Rightarrow> shape \<Rightarrow> shape" where
  "Circle_sizeTo x y sh =
     (let sh1 = points1 (Point_moveTo x y) sh in
      setAttrs [(''rx'', Num (radiusX sh1)), (''ry'', Num (radiusY sh1))] sh1)"

text \<open>
  Line: \<open>points[0]\<close> is the first end point, \<open>points[1]\<close> the offset of the second from
  it. \<open>moveTo\<close> writes its arguments, not the coordinates of the point, to \<open>x1\<close> and \<open>y1\<close>.
\<close>

definition Line_moveBy :: "number option \<Rightarrow> number option \<Rightarrow> shape \<Rightarrow> shape" where
  "Line_moveBy x y sh =
     (let sh1 = points0 (Point_moveBy x y) sh in
      setAttrs [(''x1'', Num (shape_x sh1)), (''y1'', Num (shape_y sh1))] sh1)"

definition Line_moveTo :: "number option \<Rightarrow> number option \<Rightarrow> shape \<Rightarrow> shape" where
  "Line_moveTo x y sh =
     (let sh1 = points0 (Point_moveTo x y) sh in
      setAttrs [(''x1'', numOrNull x), (''y1'', numOrNull y)] sh1)"

definition Line_sizeBy :: "number option \<Rightarrow> number option \<Rightarrow> shape \<Rightarrow> shape" where
  "Line_sizeBy x y sh =
     (let sh1 = points1 (Point_moveBy x y) sh in
      setAttrs [(''x2'', Num (nadd (shape_x sh1) (shape_width sh1))),
                (''y2'', Num (nadd (shape_y sh1) (shape_height sh1)))] sh1)"

definition Line_sizeTo :: "number option \<Rightarrow> number option \<Rightarrow> shape \<Rightarrow> shape" where
  "Line_sizeTo x y sh =
     (let sh1 = points1 (Point_moveTo x y) sh in
      setAttrs [(''x2'', Num (nadd (shape_x sh1) (shape_width sh1))),
                (''y2'', Num (nadd (shape_y sh1) (shape_height sh1)))] sh1)"

text \<open>A call of a method on a shape runs the override of its class.\<close>

definition shape_moveBy :: "number option \<Rightarrow> number option \<Rightarrow> shape \<Rightarrow> shape" where
  "shape_moveBy x y sh =
     (case variant sh of
        Circle \<Rightarrow> Circle_moveBy x y sh
      | Line \<Rightarrow> Line_moveBy x y sh
      | _ \<Rightarrow> Shape_moveBy x y sh)"

definition shape_moveTo :: "number option \<Rightarrow> number option \<Rightarrow> shape \<Rightarrow> shape" where
  "shape_moveTo x y sh =
     (case variant sh of
        Circle \<Rightarrow> Circle_moveTo x y sh
      | Line \<Rightarrow> Line_moveTo x y sh
      | _ \<Rightarrow> Shape_moveTo x y sh)"

definition shape_sizeBy :: "number option \<Rightarrow> number option \<Rightarrow> shape \<Rightarrow> shape" where
  "shape_sizeBy x y sh =
     (case variant sh of
        Circle \<Rightarrow> Circle_sizeBy x y sh
      | Line \<Rightarrow> Line_sizeBy x y sh
      | _ \<Rightarrow> Shape_sizeBy x y sh)"

definition shape_sizeTo :: "number option \<Rightarrow> number option \<Rightarrow> shape \<Rightarrow> shape" where
  "shape_sizeTo x y sh =
     (case variant sh of
        Circle \<Rightarrow> Circle_sizeTo x y sh
      | Line \<Rightarrow> Line_sizeTo x y sh
      | _ \<Rightarrow> Shape_sizeTo x y sh)"

text \<open>
  \<open>setPoints\<close> is no member of the interface iShape, and neither Shape nor any class of
  shape.ts defines it: only a Polygon has the method.
\<close>

definition has_setPoints :: "shape \<Rightarrow> bool" where
  "has_setPoints sh = (variant sh = Polygon)"

section \<open>The interpreter\<close>

subsection \<open>Log lines\<close>

text \<open>
  Every message the interpreter logs is a fixed template with holes; a constructor stands
  for the template and carries what fills the holes. The first six are the failures of the
  specification's taxonomy, named after it:
  \<^item> \<open>DuplicateName v\<close>: There is already an object called v, you can't use the same name.
  \<^item> \<open>InvalidName\<close>: Name of your object must start with a letter and contain only letters,
    numbers or underscore.
  \<^item> \<open>MissingType\<close>: You must set a type of object to create, like this: create text called title
  \<^item> \<open>UnknownType t ks\<close>: t not a valid object type, must be one of these: ks, where \<open>ks\<close>
    are the keys of \<open>objectTypes\<close>
  \<^item> \<open>ObjectNotFound v\<close>: There was no object called v.
  \<^item> \<open>UnknownCommand a\<close>: Invalid command: a
  \<open>Echo\<close> is the line itself, \<open>NoObjectToRemove\<close> the second message of \<open>remove\<close>, and the rest
  are the reports of the commands that went through.
\<close>

datatype msg =
    DuplicateName string
  | InvalidName
  | MissingType
  | UnknownType string "string list"
  | ObjectNotFound string
  | UnknownCommand string
  | Echo string
  | Created string string
  | Duplicated string string
  | Painting string string
  | Waiting string string
  | TimerFinished string string
  | Removing string
  | NoObjectToRemove string
  | Wrote "string list" string
  | SetStroke string string number
  | Moved string number number
  | Sized string number number
  | SetPoints string number number
  | SetWith string

text \<open>
  A line of the console: the line number in its class, the number shown (none when it
  repeats the number of the line before) and the message.
\<close>

record logItem =
  className :: nat
  shownNumber :: "nat option"
  message :: msg

subsection \<open>The globals of the module and the host\<close>

text \<open>
  What a key of \<open>items\<close>, of the table of commands or of the table of object types can be
  found to hold. Besides a shape, given by its address, these are the values that the
  methods of \<open>Object.prototype\<close> return when \<open>create\<close> calls one of them as a constructor
  (the String object made of the name, the table of object types itself, a boolean, a
  string, \<open>undefined\<close>), and what the prototype supplies for a key that an object does not
  have: one of its methods, the prototype itself under \<open>__proto__\<close>, or a string that was
  assigned to it.
\<close>

datatype ref =
    ShapeRef nat
  | StringObject string
  | TypesObject
  | Boolean bool
  | StringValue string
  | UndefinedValue
  | ProtoMethod
  | ObjectProto
  | ProtoString

fun truthyRef :: "ref \<Rightarrow> bool" where
  "truthyRef (Boolean b) = b"
| "truthyRef (StringValue t) = (t \<noteq> [])"
| "truthyRef UndefinedValue = False"
| "truthyRef _ = True"

text \<open>
  \<open>items\<close> maps a name to what was assigned under it: a shape object, or whatever else a
  call of \<open>create\<close> that went on to throw has left there. Objects have identity: \<open>objs\<close> is
  the store of shape objects, \<open>items\<close> holds addresses into it and \<open>nextObj\<close> is the address
  the next \<open>new\<close> takes. \<open>svg\<close> lists the elements attached to the drawing, by the address
  of their shape. \<open>withObjName\<close> is None for \<open>null\<close>, else a token (a string or
  \<open>undefined\<close>).

  \<open>timeouts\<close> is the host's table of running timers (the delay and what the callback will
  log) and \<open>nextTimer\<close> the handle the next \<open>setTimeout\<close> returns.

  \<open>items\<close>, the table of commands and the table of object types are plain objects, so a
  lookup that finds no key of their own goes on to \<open>Object.prototype\<close>. \<open>protoFill\<close> and
  \<open>protoText\<close> say whether that prototype has been given a truthy \<open>fill\<close> or \<open>text\<close>.
  The table of object types is an object like any other and can itself be registered in
  \<open>items\<close>; \<open>typesFill\<close> and \<open>typesText\<close> are the values that \<open>paint\<close> and \<open>write\<close> have then
  assigned to its \<open>fill\<close> and over its \<open>text\<close>, None as long as there was no such assignment.

  \<open>generated\<close> and \<open>generateCalls\<close> are what \<open>generateName\<close> draws on: the names it
  returns, call by call, and the number of calls so far.
\<close>

record state =
  items :: "string \<rightharpoonup> ref"
  objs :: "nat \<Rightarrow> shape"
  nextObj :: nat
  svg :: "nat list"
  timers :: "nat list"
  lineNumber :: nat
  withObjName :: "string option option"
  console :: "logItem list"
  lastConsoleLineNumber :: nat
  timeouts :: "(nat \<times> number \<times> msg) list"
  nextTimer :: nat
  protoFill :: bool
  protoText :: bool
  typesFill :: "string option option"
  typesText :: "string option"
  generated :: "nat \<Rightarrow> string"
  generateCalls :: nat

text \<open>
  A call either returns a value or throws; both leave a state behind. Every call of the
  code that fails raises a TypeError.
\<close>

datatype error = TypeError

datatype 'a completion = Return 'a state | Throw error state

definition log :: "msg \<Rightarrow> state \<Rightarrow> state" where
  "log m s =
     s\<lparr>console := console s @
          [\<lparr>className = lineNumber s,
            shownNumber = (if lastConsoleLineNumber s = lineNumber s then None else Some (lineNumber s)),
            message = m\<rparr>],
       lastConsoleLineNumber := lineNumber s\<rparr>"

subsection \<open>Property lookup on the plain objects\<close>

definition protoMethods :: "string list" where
  "protoMethods =
     [''constructor'', ''hasOwnProperty'', ''isPrototypeOf'', ''propertyIsEnumerable'',
      ''toLocaleString'', ''toString'', ''valueOf'', ''__defineGetter__'', ''__defineSetter__'',
      ''__lookupGetter__'', ''__lookupSetter__'']"

definition inherited :: "state \<Rightarrow> string \<Rightarrow> ref option" where
  "inherited s k =
     (if k = ''__proto__'' then Some ObjectProto
      else if k \<in> set protoMethods then Some ProtoMethod
      else if (k = ''fill'' \<and> protoFill s) \<or> (k = ''text'' \<and> protoText s) then Some ProtoString
      else None)"

text \<open>
  \<open>items[varName]\<close> where the code tests it for truth: None when the value is falsy. A key
  of its own, whatever it holds, hides what the prototype has under that key.
\<close>

definition items_get :: "state \<Rightarrow> string \<Rightarrow> ref option" where
  "items_get s k =
     (case items s k of
        Some r \<Rightarrow> (if truthyRef r then Some r else None)
      | None \<Rightarrow> inherited s k)"

text \<open>The constructors of \<open>objectTypes\<close> as the module defines it, by its own keys.\<close>

definition objectTypes :: "string \<rightharpoonup> (string \<Rightarrow> shape)" where
  "objectTypes =
     [''text'' \<mapsto> Text_create, ''circle'' \<mapsto> Circle_create, ''ellipse'' \<mapsto> Circle_create,
      ''rectangle'' \<mapsto> Rectangle_create, ''rect'' \<mapsto> Rectangle_create, ''line'' \<mapsto> Line_create,
      ''polygon'' \<mapsto> Polygon_create]"

text \<open>
  What has been assigned to a key of \<open>objectTypes\<close> since: None when nothing was, else the
  string or \<open>undefined\<close> the key holds now. It comes before the constructor and before what
  the prototype has.
\<close>

definition overwritten :: "state \<Rightarrow> string \<Rightarrow> string option option" where
  "overwritten s k =
     (if k = ''fill'' then typesFill s
      else if k = ''text'' then map_option Some (typesText s)
      else None)"

text \<open>\<open>Object.keys(objectTypes)\<close>: the keys in the order they were first assigned.\<close>

definition typeKeys :: "state \<Rightarrow> string list" where
  "typeKeys s =
     [''text'', ''circle'', ''ellipse'', ''rectangle'', ''rect'', ''line'', ''polygon'']
       @ (if typesFill s = None then [] else [''fill''])"

text \<open>
  \<open>objectTypes[method](varName)\<close> for a method of the prototype, called on \<open>objectTypes\<close>
  with a name: the value returned, None when the call throws. \<open>constructor\<close> is \<open>Object\<close>
  and wraps the name in a String object; \<open>hasOwnProperty\<close> and \<open>propertyIsEnumerable\<close> say
  whether the name is a key of \<open>objectTypes\<close>; a string is the prototype of nothing;
  \<open>toString\<close> and \<open>toLocaleString\<close> give the string for a plain object; \<open>valueOf\<close> gives
  \<open>objectTypes\<close> itself; neither \<open>objectTypes\<close> nor its prototype has an accessor under a
  name that gets this far (\<open>__proto__\<close>, the one there is, is a duplicate for \<open>create\<close>), so
  the two lookups give \<open>undefined\<close>; the two definers throw for want of a function.
\<close>

definition callOnTypes :: "string \<Rightarrow> string \<Rightarrow> state \<Rightarrow> ref option" where
  "callOnTypes method varName s =
     (if method = ''constructor'' then Some (StringObject varName)
      else if method = ''hasOwnProperty'' \<or> method = ''propertyIsEnumerable''
        then Some (Boolean (varName \<in> set (typeKeys s)))
      else if method = ''isPrototypeOf'' then Some (Boolean False)
      else if method = ''toString'' \<or> method = ''toLocaleString''
        then Some (StringValue ''[object Object]'')
      else if method = ''valueOf'' then Some TypesObject
      else if method = ''__lookupGetter__'' \<or> method = ''__lookupSetter__'' then Some UndefinedValue
      else None)"

subsection \<open>Names\<close>

text \<open>
  \<open>varNamingRule.test(s)\<close> for the pattern \<open>/[A-Za-z][A-Za-z0-9_]+/\<close>. The pattern has no
  anchors, so it is searched for anywhere in the string: a letter followed by at least one
  letter, digit or underscore.
\<close>

fun varNamingRule :: "string \<Rightarrow> bool" where
  "varNamingRule (c # d # cs) = ((isLetter c \<and> isWordChar d) \<or> varNamingRule (d # cs))"
| "varNamingRule _ = False"

text \<open>A string or \<open>undefined\<close> is falsy when it is \<open>undefined\<close> or empty.\<close>

fun truthy :: "string option \<Rightarrow> bool" where
  "truthy None = False"
| "truthy (Some s) = (s \<noteq> [])"

subsection \<open>The operations on the registry\<close>

text \<open>
  Modelled from the spec: \<open>generateName\<close> of the module util, which is not among the
  sources. After the specification it supplies a default name for an object that is
  created without one; nothing more is said of the names, so they are a parameter of the
  state.
\<close>

definition generateName :: "state \<Rightarrow> string \<times> state" where
  "generateName s = (generated s (generateCalls s), s\<lparr>generateCalls := Suc (generateCalls s)\<rparr>)"

definition appendChild :: "nat \<Rightarrow> state \<Rightarrow> state" where
  "appendChild a s = s\<lparr>svg := removeAll a (svg s) @ [a]\<rparr>"

text \<open>
  \<open>create\<close>. The value of \<open>objectTypes[type]\<close> is what was assigned to that key, else the
  constructor, else what the prototype has. A string is truthy unless empty and is no
  function, nor is the prototype: calling it throws. A method of the prototype is called
  with the name; what it returns is entered in \<open>items\<close> and the name is selected, and then
  attaching throws, as the value is \<open>undefined\<close> or has no \<open>domElement\<close>.
\<close>

definition create :: "string option \<Rightarrow> string option \<Rightarrow> state \<Rightarrow> nat option completion" where
  "create varName0 type s0 =
     (let (varName, s) =
            (if truthy varName0 then (str varName0, s0) else generateName s0) in
      if items_get s varName \<noteq> None then Return None (log (DuplicateName varName) s)
      else if \<not> varNamingRule varName then Return None (log InvalidName s)
      else if \<not> truthy type then Return None (log MissingType s)
      else (case overwritten s (str type) of
              Some v \<Rightarrow>
                (if truthy v then Throw TypeError s
                 else Return None (log (UnknownType (str type) (typeKeys s)) s))
            | None \<Rightarrow>
                (case objectTypes (str type) of
                   Some new \<Rightarrow>
                     (let a = nextObj s;
                          s1 = s\<lparr>objs := (objs s)(a := new varName), nextObj := Suc a,
                                  items := (items s)(varName \<mapsto> ShapeRef a)\<rparr>;
                          s2 = s1\<lparr>withObjName := Some (Some varName)\<rparr>;
                          s3 = appendChild a s2
                      in Return (Some a) (log (Created (str type) varName) s3))
                 | None \<Rightarrow>
                     (case inherited s (str type) of
                        None \<Rightarrow> Return None (log (UnknownType (str type) (typeKeys s)) s)
                      | Some ProtoMethod \<Rightarrow>
                          (case callOnTypes (str type) varName s of
                             None \<Rightarrow> Throw TypeError s
                           | Some r \<Rightarrow>
                               (let s1 = s\<lparr>items := (items s)(varName \<mapsto> r)\<rparr>;
                                    s2 = s1\<lparr>withObjName := Some (Some varName)\<rparr>
                                in Throw TypeError s2))
                      | Some _ \<Rightarrow> Throw TypeError s))))"

definition getItem :: "string option \<Rightarrow> state \<Rightarrow> ref option \<times> state" where
  "getItem varName s =
     (case items_get s (str varName) of
        Some r \<Rightarrow> (Some r, s)
      | None \<Rightarrow> (None, log (ObjectNotFound (str varName)) s))"

definition update :: "nat \<Rightarrow> (shape \<Rightarrow> shape) \<Rightarrow> state \<Rightarrow> state" where
  "update a f s = s\<lparr>objs := (objs s)(a := f (objs s a))\<rparr>"

text \<open>
  \<open>clone\<close>. The type handed to \<open>create\<close> is the \<open>type\<close> of the object found, which is
  \<open>undefined\<close> on anything but a shape.
\<close>

definition clone :: "string option \<Rightarrow> string option \<Rightarrow> state \<Rightarrow> nat option completion" where
  "clone fromVarName toVarName s =
     (case getItem fromVarName s of
        (None, s1) \<Rightarrow> Return None s1
      | (Some (ShapeRef a), s1) \<Rightarrow>
          (case create toVarName (Some (shape_type (objs s1 a))) s1 of
             Throw e s2 \<Rightarrow> Throw e s2
           | Return None s2 \<Rightarrow> Return None s2
           | Return (Some b) s2 \<Rightarrow>
               (let s3 = update b (shape_moveTo (Some (shape_x (objs s2 a))) (Some (shape_y (objs s2 a)))) s2;
                    s4 = update b (shape_sizeTo (Some (shape_width (objs s3 a))) (Some (shape_height (objs s3 a)))) s3;
                    s5 = update b (set_fill (fill (objs s4 a))) s4;
                    s6 = update b (Shape_setStroke (stroke_color (shape_stroke (objs s5 a)))
                                                   (Some (stroke_width (shape_stroke (objs s5 a))))) s5;
                    s7 = s6\<lparr>withObjName := Some toVarName\<rparr>;
                    s8 = appendChild b s7
                in Return (Some b) (log (Duplicated (str fromVarName) (str toVarName)) s8)))
      | (Some _, s1) \<Rightarrow>
          (case create toVarName None s1 of
             Throw e s2 \<Rightarrow> Throw e s2
           | Return _ s2 \<Rightarrow> Return None s2))"

subsection \<open>The command handlers\<close>

text \<open>
  What a handler does with the object \<open>getItem\<close> found. On a shape, a property assignment
  or a method call updates the shape (\<open>f\<close>). On anything else a call of a shape method
  throws, as the method is \<open>undefined\<close>, and an assignment to \<open>fill\<close> or \<open>text\<close> depends on
  what the object is: on a function or a String object it adds a property that is never
  read; on the prototype it adds the property to every plain object (\<open>g\<close>); on the table
  of object types it sets that key of the table (\<open>h\<close>); on a string or a boolean it throws
  (module code is strict).
\<close>

definition assign ::
  "ref \<Rightarrow> (shape \<Rightarrow> shape) \<Rightarrow> (state \<Rightarrow> state) \<Rightarrow> (state \<Rightarrow> state) \<Rightarrow> state \<Rightarrow> unit completion" where
  "assign r f g h s =
     (case r of
        ShapeRef a \<Rightarrow> Return () (update a f s)
      | StringObject n \<Rightarrow> Return () s
      | ProtoMethod \<Rightarrow> Return () s
      | ObjectProto \<Rightarrow> Return () (g s)
      | TypesObject \<Rightarrow> Return () (h s)
      | _ \<Rightarrow> Throw TypeError s)"

definition call :: "ref \<Rightarrow> (shape \<Rightarrow> shape) \<Rightarrow> state \<Rightarrow> nat completion" where
  "call r f s =
     (case r of
        ShapeRef a \<Rightarrow> Return a (update a f s)
      | _ \<Rightarrow> Throw TypeError s)"

definition paint :: "string option \<Rightarrow> string option \<Rightarrow> state \<Rightarrow> unit completion" where
  "paint varName color s =
     (case getItem varName s of
        (None, s1) \<Rightarrow> Return () s1
      | (Some r, s1) \<Rightarrow>
          (case assign r (set_fill (val color)) (\<lambda>s. s\<lparr>protoFill := truthy color\<rparr>)
                  (\<lambda>s. s\<lparr>typesFill := Some color\<rparr>) s1 of
             Throw e s2 \<Rightarrow> Throw e s2
           | Return _ s2 \<Rightarrow>
               Return () (log (Painting (str varName) (str color)) (s2\<lparr>withObjName := Some varName\<rparr>))))"

text \<open>\<open>v > c\<close> for a number \<open>v\<close> and a constant \<open>c\<close>.\<close>

fun gt :: "number \<Rightarrow> rat \<Rightarrow> bool" where
  "gt (Fin a) c = (c < a)"
| "gt PInf c = True"
| "gt _ c = False"

text \<open>\<open>/^(seconds?|sec|s)$/i.test(unitName)\<close>; a missing unit is tested as the string undefined.\<close>

definition isSeconds :: "string option \<Rightarrow> bool" where
  "isSeconds unitName = (map toLower (str unitName) \<in> set [''seconds'', ''second'', ''sec'', ''s''])"

datatype result = Value | Promise nat

text \<open>
  \<open>wait\<close>: \<open>n\<close> is the token as it stands, converted to a number where it is compared or
  multiplied. \<open>setTimeout\<close> enters the timer in the host's table under a fresh handle, and
  the promise returned is the one that timer resolves.
\<close>

definition wait :: "string option \<Rightarrow> string option \<Rightarrow> state \<Rightarrow> result completion" where
  "wait n unitName s =
     (let units = (if isSeconds unitName then ''second'' else ''millisecond'');
          factor = (if isSeconds unitName then Fin 1000 else Fin 1);
          ms = nmul (if gt (toNumber n) 0 then toNumber n else Fin 1000) factor;
          label = units @ (if gt (toNumber n) 1 then ''s'' else []);
          s1 = log (Waiting (str n) label) s;
          t = nextTimer s1;
          s2 = s1\<lparr>timeouts := timeouts s1 @ [(t, ms, TimerFinished (str n) label)],
                  nextTimer := Suc t,
                  timers := timers s1 @ [t]\<rparr>
      in Return (Promise t) s2)"

text \<open>
  \<open>remove\<close>: the method \<open>remove\<close> of a shape detaches its element from the parent, and
  throws when the element has none.
\<close>

definition remove :: "string option \<Rightarrow> state \<Rightarrow> unit completion" where
  "remove varName s =
     (case getItem varName s of
        (None, s1) \<Rightarrow> Return () (log (NoObjectToRemove (str varName)) s1)
      | (Some (ShapeRef a), s1) \<Rightarrow>
          (if a \<in> set (svg s1) then
             (let s2 = s1\<lparr>svg := removeAll a (svg s1)\<rparr>;
                  s3 = s2\<lparr>items := ((items s2)(str varName := None))(str varName @ ''.text'' := None)\<rparr>
              in Return () (log (Removing (str varName)) s3))
           else Throw TypeError s1)
      | (Some _, s1) \<Rightarrow> Throw TypeError s1)"

text \<open>\<open>write\<close>, the handler of the command of that name.\<close>

definition writeText :: "string option \<Rightarrow> string list \<Rightarrow> state \<Rightarrow> unit completion" where
  "writeText varName words s =
     (case getItem varName s of
        (None, s1) \<Rightarrow> Return () s1
      | (Some r, s1) \<Rightarrow>
          (case assign r (set_text (join '' '' words)) (\<lambda>s. s\<lparr>protoText := (join '' '' words \<noteq> [])\<rparr>)
                  (\<lambda>s. s\<lparr>typesText := Some (join '' '' words)\<rparr>) s1 of
             Throw e s2 \<Rightarrow> Throw e s2
           | Return _ s2 \<Rightarrow> Return () (log (Wrote words (str varName)) s2)))"

definition setStroke :: "string option \<Rightarrow> string option \<Rightarrow> number \<Rightarrow> state \<Rightarrow> unit completion" where
  "setStroke varName color width s =
     (case getItem varName s of
        (None, s1) \<Rightarrow> Return () s1
      | (Some r, s1) \<Rightarrow>
          (case call r (Shape_setStroke (val color) (Some width)) s1 of
             Throw e s2 \<Rightarrow> Throw e s2
           | Return a s2 \<Rightarrow> Return () (log (SetStroke (str varName) (str color) width) s2)))"

definition moveTo :: "string option \<Rightarrow> number option \<Rightarrow> number option \<Rightarrow> state \<Rightarrow> unit completion" where
  "moveTo varName x y s =
     (case getItem varName s of
        (None, s1) \<Rightarrow> Return () s1
      | (Some r, s1) \<Rightarrow>
          (case call r (shape_moveTo x y) s1 of
             Throw e s2 \<Rightarrow> Throw e s2
           | Return a s2 \<Rightarrow>
               Return () (log (Moved (str varName) (shape_x (objs s2 a)) (shape_y (objs s2 a))) s2)))"

definition moveBy :: "string option \<Rightarrow> number option \<Rightarrow> number option \<Rightarrow> state \<Rightarrow> unit completion" where
  "moveBy varName x y s =
     (case getItem varName s of
        (None, s1) \<Rightarrow> Return () s1
      | (Some r, s1) \<Rightarrow>
          (case call r (shape_moveBy x y) s1 of
             Throw e s2 \<Rightarrow> Throw e s2
           | Return a s2 \<Rightarrow>
               Return () (log (Moved (str varName) (shape_x (objs s2 a)) (shape_y (objs s2 a))) s2)))"

definition sizeTo :: "string option \<Rightarrow> number option \<Rightarrow> number option \<Rightarrow> state \<Rightarrow> unit completion" where
  "sizeTo varName x y s =
     (case getItem varName s of
        (None, s1) \<Rightarrow> Return () s1
      | (Some r, s1) \<Rightarrow>
          (case call r (shape_sizeTo x y) s1 of
             Throw e s2 \<Rightarrow> Throw e s2
           | Return a s2 \<Rightarrow>
               Return () (log (Sized (str varName) (shape_width (objs s2 a)) (shape_height (objs s2 a))) s2)))"

definition sizeBy :: "string option \<Rightarrow> number option \<Rightarrow> number option \<Rightarrow> state \<Rightarrow> unit completion" where
  "sizeBy varName x y s =
     (case getItem varName s of
        (None, s1) \<Rightarrow> Return () s1
      | (Some r, s1) \<Rightarrow>
          (case call r (shape_sizeBy x y) s1 of
             Throw e s2 \<Rightarrow> Throw e s2
           | Return a s2 \<Rightarrow>
               Return () (log (Sized (str varName) (shape_width (objs s2 a)) (shape_height (objs s2 a))) s2)))"

text \<open>
  \<open>setPoints\<close>: the points are parsed first, then \<open>object.setPoints\<close> is called, which is a
  method of a Polygon only; on every other object the call throws.
\<close>

definition parsePoint :: "string \<Rightarrow> point" where
  "parsePoint point =
     (let arrPoint = split (CHR '','') point
      in Point (toNumber (elemAt arrPoint 0)) (toNumber (elemAt arrPoint 1)))"

definition setPoints :: "string option \<Rightarrow> string list \<Rightarrow> state \<Rightarrow> unit completion" where
  "setPoints varName pts s =
     (case getItem varName s of
        (None, s1) \<Rightarrow> Return () s1
      | (Some r, s1) \<Rightarrow>
          (let arrPoints = map parsePoint pts in
           case r of
             ShapeRef a \<Rightarrow>
               (if has_setPoints (objs s1 a) then
                  (let s2 = update a (Polygon_setPoints arrPoints) s1
                   in Return () (log (SetPoints (str varName) (shape_width (objs s2 a)) (shape_height (objs s2 a))) s2))
                else Throw TypeError s1)
           | _ \<Rightarrow> Throw TypeError s1))"

text \<open>\<open>reset\<close>: clearing a timer takes it out of the host's table, so that it never fires.\<close>

definition clearTimeout :: "nat \<Rightarrow> state \<Rightarrow> state" where
  "clearTimeout t s = s\<lparr>timeouts := filter (\<lambda>e. fst e \<noteq> t) (timeouts s)\<rparr>"

definition reset :: "state \<Rightarrow> state" where
  "reset s =
     (let s1 = s\<lparr>svg := [], items := Map.empty, lineNumber := 0\<rparr>;
          s2 = foldl (\<lambda>s t. clearTimeout t s) s1 (timers s1)
      in s2\<lparr>timers := [], withObjName := None\<rparr>)"

definition setWith :: "string option \<Rightarrow> state \<Rightarrow> unit completion" where
  "setWith varName s =
     (case getItem varName s of
        (None, s1) \<Rightarrow> Return () s1
      | (Some r, s1) \<Rightarrow> Return () (log (SetWith (str varName)) (s1\<lparr>withObjName := Some varName\<rparr>)))"

subsection \<open>The command table\<close>

text \<open>A handler's value matters only as far as it is a promise or not.\<close>

fun plain :: "'a completion \<Rightarrow> result completion" where
  "plain (Return v s) = Return Value s"
| "plain (Throw e s) = Throw e s"

text \<open>\<open>Number(words[3]) || 1\<close>\<close>

definition numberOr1 :: "string option \<Rightarrow> number" where
  "numberOr1 w = (if truthyNum (toNumber w) then toNumber w else Fin 1)"

definition commands :: "string \<rightharpoonup> (string list \<Rightarrow> state \<Rightarrow> result completion)" where
  "commands =
     [''paint'' \<mapsto> (\<lambda>words s. plain (paint (elemAt words 1) (elemAt words 2) s)),
      ''remove'' \<mapsto> (\<lambda>words s. plain (remove (elemAt words 1) s)),
      ''new'' \<mapsto> (\<lambda>words s. plain (create (elemAt words 2) (elemAt words 1) s)),
      ''clone'' \<mapsto> (\<lambda>words s. plain (clone (elemAt words 1) (elemAt words 2) s)),
      ''write'' \<mapsto> (\<lambda>words s. plain (writeText (elemAt words 1) (drop 2 words) s)),
      ''reset'' \<mapsto> (\<lambda>words s. Return Value (reset s)),
      ''width'' \<mapsto> (\<lambda>words s. plain (sizeTo (elemAt words 1) (Some (toNumber (elemAt words 2))) None s)),
      ''height'' \<mapsto> (\<lambda>words s. plain (sizeTo (elemAt words 1) None (Some (toNumber (elemAt words 2))) s)),
      ''left'' \<mapsto> (\<lambda>words s. plain (moveTo (elemAt words 1) (Some (toNumber (elemAt words 2))) None s)),
      ''top'' \<mapsto> (\<lambda>words s. plain (moveTo (elemAt words 1) None (Some (toNumber (elemAt words 2))) s)),
      ''outline'' \<mapsto> (\<lambda>words s. plain (setStroke (elemAt words 1) (elemAt words 2) (numberOr1 (elemAt words 3)) s)),
      ''with'' \<mapsto> (\<lambda>words s. plain (setWith (elemAt words 1) s)),
      ''move'' \<mapsto> (\<lambda>words s. plain (moveBy (elemAt words 1) (Some (toNumber (elemAt words 2))) (Some (toNumber (elemAt words 3))) s)),
      ''position'' \<mapsto> (\<lambda>words s. plain (moveTo (elemAt words 1) (Some (toNumber (elemAt words 2))) (Some (toNumber (elemAt words 3))) s)),
      ''points'' \<mapsto> (\<lambda>words s. plain (setPoints (elemAt words 1) (drop 2 words) s)),
      ''size'' \<mapsto> (\<lambda>words s. plain (sizeTo (elemAt words 1) (Some (toNumber (elemAt words 2))) (Some (toNumber (elemAt words 3))) s)),
      ''grow'' \<mapsto> (\<lambda>words s. plain (sizeBy (elemAt words 1) (Some (toNumber (elemAt words 2))) (Some (toNumber (elemAt words 3))) s)),
      ''wait'' \<mapsto> (\<lambda>words s. wait (elemAt words 1) (elemAt words 2) s)]"

text \<open>
  \<open>commands[action]\<close> for an action that is no command but a property of the prototype:
  the value is truthy and is called with the words, with no receiver. The constructor
  Object and \<open>toString\<close> return; the other methods need a receiver and throw, and the
  prototype itself or a string is no function.
\<close>

definition callInherited :: "string \<Rightarrow> state \<Rightarrow> result completion" where
  "callInherited action s =
     (if action = ''constructor'' \<or> action = ''toString'' then Return Value s else Throw TypeError s)"

subsection \<open>Running the lines\<close>

text \<open>\<open>String(withObjName)\<close>\<close>

fun selected :: "string option option \<Rightarrow> string" where
  "selected None = ''null''"
| "selected (Some v) = str v"

definition cleanCommand :: "string \<Rightarrow> state \<Rightarrow> string list" where
  "cleanCommand line s =
     (let words = split (CHR '' '') (trim line);
          removeWords = ['' ''];
          out = filter (\<lambda>w. w \<notin> set removeWords) words
      in if line \<noteq> [] \<and> isWhite (hd line)
         then take 1 out @ [selected (withObjName s)] @ drop 1 out
         else out)"

text \<open>The callback that \<open>render\<close> hands to \<open>forEachPromise\<close>: one line of the script.\<close>

definition execLine :: "string \<Rightarrow> state \<Rightarrow> result completion" where
  "execLine line s0 =
     (let s1 = s0\<lparr>lineNumber := lineNumber s0 + 1\<rparr> in
      if line \<noteq> [] then
        (let s2 = log (Echo line) s1;
             words = cleanCommand line s2;
             action = (if elemAt words 0 = Some '' '' then elemAt words 1 else elemAt words 0)
         in case commands (str action) of
              Some command \<Rightarrow> command words s2
            | None \<Rightarrow>
                (if inherited s2 (str action) \<noteq> None then callInherited (str action) s2
                 else Return Value (log (UnknownCommand (str action)) s2)))
      else Return Value s1)"

text \<open>
  How a run ends: with its last line, suspended on the promise of a timer with lines left
  to run, or with an exception.
\<close>

datatype run = Finished state | Suspended nat "string list" state | Crashed error state

text \<open>
  Modelled from the spec: \<open>forEachPromise\<close> of the module util, which is not among the
  sources. After the specification the lines are executed strictly in sequence, one at a
  time; a promise returned for a line suspends the whole sequence until it is resolved,
  and there is no other suspension point. An exception of the callback ends the sequence.
\<close>

fun forEachPromise :: "string list \<Rightarrow> state \<Rightarrow> run" where
  "forEachPromise [] s = Finished s"
| "forEachPromise (line # rest) s =
     (case execLine line s of
        Return Value s1 \<Rightarrow> forEachPromise rest s1
      | Return (Promise t) s1 \<Rightarrow> Suspended t rest s1
      | Throw e s1 \<Rightarrow> Crashed e s1)"

text \<open>
  The page: the globals, and the sequences of lines that wait for a timer each. The
  script text is what the code element holds when the run button is clicked.
\<close>

record page =
  globals :: state
  awaiting :: "(nat \<times> string list) list"

fun settle :: "run \<Rightarrow> page \<Rightarrow> page" where
  "settle (Finished s) pg = pg\<lparr>globals := s\<rparr>"
| "settle (Suspended t rest s) pg = pg\<lparr>globals := s, awaiting := awaiting pg @ [(t, rest)]\<rparr>"
| "settle (Crashed e s) pg = pg\<lparr>globals := s\<rparr>"

definition render :: "string \<Rightarrow> page \<Rightarrow> page" where
  "render script pg =
     (let s1 = reset (globals pg);
          s2 = s1\<lparr>console := []\<rparr>;
          lines = split (CHR 0x0A) script
      in settle (forEachPromise lines s2) pg)"

text \<open>
  The host fires a timer that is still in its table: the timer leaves the table, its
  callback logs and resolves the promise, and the sequence that waits for it goes on. A
  handle that is not in the table fires nothing.
\<close>

definition fire :: "nat \<Rightarrow> page \<Rightarrow> page" where
  "fire t pg =
     (case map_of (timeouts (globals pg)) t of
        None \<Rightarrow> pg
      | Some (ms, m) \<Rightarrow>
          (let s1 = log m (clearTimeout t (globals pg)) in
           case map_of (awaiting pg) t of
             None \<Rightarrow> pg\<lparr>globals := s1\<rparr>
           | Some rest \<Rightarrow>
               settle (forEachPromise rest s1) (pg\<lparr>awaiting := filter (\<lambda>e. fst e \<noteq> t) (awaiting pg)\<rparr>)))"

text \<open>What happens on the page: a click on the run button, or a timer firing.\<close>

datatype event = Run string | Fire nat

fun step :: "event \<Rightarrow> page \<Rightarrow> page" where
  "step (Run script) pg = render script pg"
| "step (Fire t) pg = fire t pg"

definition steps :: "event list \<Rightarrow> page \<Rightarrow> page" where
  "steps es pg = foldl (\<lambda>pg e. step e pg) pg es"

text \<open>
  The page as the module leaves it before its first \<open>render\<close>: nothing is registered,
  attached, logged or scheduled, and no object is allocated (the store holds a blank shape at
  every address). \<open>gen\<close> is the supply of generated names.
\<close>

definition initial :: "(nat \<Rightarrow> string) \<Rightarrow> page" where
  "initial gen =
     \<lparr>globals =
        \<lparr>items = Map.empty, objs = (\<lambda>a. Shape Text [] []), nextObj = 0, svg = [], timers = [],
         lineNumber = 0, withObjName = None, console = [], lastConsoleLineNumber = 0,
         timeouts = [], nextTimer = 0, protoFill = False, protoText = False,
         typesFill = None, typesText = None,
         generated = gen, generateCalls = 0\<rparr>,
      awaiting = []\<rparr>"

section \<open>Sample pages and the rules as the specification words them\<close>

text \<open>The text of the code element that holds the given lines.\<close>

definition codeText :: "string list \<Rightarrow> string" where
  "codeText ls = join [CHR 0x0A] ls"

text \<open>A page before its first run, on which \<open>generateName\<close> returns \<open>obj\<close> every time.\<close>

definition started :: page where
  "started = initial (\<lambda>k. ''obj'')"

text \<open>
  The naming rule in the words of the specification, which are also those of the message
  \<open>create\<close> logs for a bad name: the first character is a letter, every other character a
  letter, a digit or an underscore.
\<close>

fun statedNamingRule :: "string \<Rightarrow> bool" where
  "statedNamingRule [] = False"
| "statedNamingRule (c # cs) = (isLetter c \<and> list_all isWordChar cs)"

text \<open>The state a call or a run leaves behind.\<close>

fun stateOf :: "'a completion \<Rightarrow> state" where
  "stateOf (Return v s) = s"
| "stateOf (Throw e s) = s"

fun endState :: "run \<Rightarrow> state" where
  "endState (Finished s) = s"
| "endState (Suspended t rest s) = s"
| "endState (Crashed e s) = s"

fun returned :: "'a completion \<Rightarrow> 'a option" where
  "returned (Return v s) = Some v"
| "returned (Throw e s) = None"

section \<open>Timers: what holds of every page\<close>

text \<open>
  Every timer in the host's table was started by \<open>wait\<close>, which put its handle in
  \<open>timers\<close>; handles are given out in increasing order, so those in use lie below
  \<open>nextTimer\<close>. On a page this holds of the globals, and every sequence that waits does so
  for a handle already given out.
\<close>

definition timersKnown :: "state \<Rightarrow> bool" where
  "timersKnown s = (\<forall>e \<in> set (timeouts s). fst e \<in> set (timers s) \<and> fst e < nextTimer s)"

definition pageInv :: "page \<Rightarrow> bool" where
  "pageInv pg = (timersKnown (globals pg) \<and> (\<forall>e \<in> set (awaiting pg). fst e < nextTimer (globals pg)))"

text \<open>From \<open>s\<close> to \<open>s'\<close> timers were only cleared, fired, or started under new handles.\<close>

definition extends :: "state \<Rightarrow> state \<Rightarrow> bool" where
  "extends s s' =
     (nextTimer s \<le> nextTimer s' \<and> (\<forall>e \<in> set (timeouts s'). e \<in> set (timeouts s) \<or> nextTimer s \<le> fst e))"

text \<open>No timer with a handle below \<open>n\<close> is running.\<close>

definition noneBelow :: "nat \<Rightarrow> state \<Rightarrow> bool" where
  "noneBelow n s = (n \<le> nextTimer s \<and> (\<forall>e \<in> set (timeouts s). n \<le> fst e))"

text \<open>The part of the state that timers live in.\<close>

definition timerFields :: "state \<Rightarrow> (nat \<times> number \<times> msg) list \<times> nat \<times> nat list" where
  "timerFields s = (timeouts s, nextTimer s, timers s)"

text \<open>
  What a call and a run keep of this, started in \<open>s\<close>: the state left behind knows its
  timers and extends \<open>s\<close>, and a promise returned, or waited for, is that of a handle already
  given out.
\<close>

definition okStep :: "state \<Rightarrow> result completion \<Rightarrow> bool" where
  "okStep s c =
     (timersKnown (stateOf c) \<and> extends s (stateOf c)
      \<and> (\<forall>t. returned c = Some (Promise t) \<longrightarrow> t < nextTimer (stateOf c)))"

fun okRun :: "state \<Rightarrow> run \<Rightarrow> bool" where
  "okRun s (Finished s') = (timersKnown s' \<and> extends s s')"
| "okRun s (Suspended t rest s') = (timersKnown s' \<and> extends s s' \<and> t < nextTimer s')"
| "okRun s (Crashed e s') = (timersKnown s' \<and> extends s s')"

text \<open>
  A page whose run is suspended: the script creates a rectangle, waits two seconds and
  would then paint the rectangle red.
\<close>

definition waiting :: page where
  "waiting = render (codeText [''new rect box'', ''wait 2 seconds'', ''paint box red'']) started"

section \<open>Cloning: what the statement needs\<close>

text \<open>
  A shape as the constructors and \<open>setStroke\<close> leave it: the tag is that of its class, and
  the colour of the stroke is a string.
\<close>

definition wellFormed :: "shape \<Rightarrow> bool" where
  "wellFormed sh =
     ((variant sh, shape_type sh) \<in>
        set [(Text, ''text''), (Rectangle, ''rect''), (Circle, ''ellipse''), (Line, ''line''),
             (Polygon, ''polygon'')]
      \<and> (case stroke_color (shape_stroke sh) of Str c \<Rightarrow> True | _ \<Rightarrow> False))"

text \<open>
  What holds of the registry in every state: a registered shape was allocated, so that its
  address lies below \<open>nextObj\<close>, and it is well formed.
\<close>

definition registryInv :: "state \<Rightarrow> bool" where
  "registryInv s = (\<forall>n p. items s n = Some (ShapeRef p) \<longrightarrow> p < nextObj s \<and> wellFormed (objs s p))"

text \<open>The commands that change a shape: move, size, paint and stroke, addressed by name.\<close>

datatype mutation =
    DoMoveTo "number option" "number option"
  | DoMoveBy "number option" "number option"
  | DoSizeTo "number option" "number option"
  | DoSizeBy "number option" "number option"
  | DoPaint "string option"
  | DoStroke "string option" number

fun mutate :: "string \<Rightarrow> mutation \<Rightarrow> state \<Rightarrow> state" where
  "mutate a (DoMoveTo x y) s = stateOf (moveTo (Some a) x y s)"
| "mutate a (DoMoveBy x y) s = stateOf (moveBy (Some a) x y s)"
| "mutate a (DoSizeTo x y) s = stateOf (sizeTo (Some a) x y s)"
| "mutate a (DoSizeBy x y) s = stateOf (sizeBy (Some a) x y s)"
| "mutate a (DoPaint color) s = stateOf (paint (Some a) color s)"
| "mutate a (DoStroke color width) s = stateOf (setStroke (Some a) color width s)"

definition mutateAll :: "string \<Rightarrow> mutation list \<Rightarrow> state \<Rightarrow> state" where
  "mutateAll a ms s = foldl (\<lambda>s m. mutate a m s) s ms"

text \<open>What the four calls of \<open>clone\<close> make of the new shape \<open>dst\<close>, given the shape \<open>src\<close> it copies.\<close>

definition copied :: "shape \<Rightarrow> shape \<Rightarrow> shape" where
  "copied src dst =
     Shape_setStroke (stroke_color (shape_stroke src)) (Some (stroke_width (shape_stroke src)))
       (set_fill (fill src)
         (shape_sizeTo (Some (shape_width src)) (Some (shape_height src))
           (shape_moveTo (Some (shape_x src)) (Some (shape_y src)) dst)))"

text \<open>Two states for the examples of cloning: a rectangle and a line; a circle painted yellow.\<close>

definition twoShapes :: state where
  "twoShapes = endState (forEachPromise [''new rect box'', ''new line other''] (globals started))"

definition sunny :: state where
  "sunny = endState (forEachPromise [''new circle sun'', ''paint sun yellow''] (globals started))"

text \<open>A line painted red.\<close>

definition redLine :: state where
  "redLine = endState (forEachPromise [''new line ln'', ''paint ln red''] (globals started))"

section \<open>Creating shapes\<close>

text \<open>
  C3: for every state of the registry and every name present in it, that is, every name
  under which the registry holds a shape or any other object, \<open>create\<close> with that name
  fails with the DuplicateName message and returns nothing. The call returns, its value
  is no shape, and the console has got one more line, which is the DuplicateName message
  for that name, under the current line number. The registry is as before: the mapping,
  the objects, the drawing and the selected name are unchanged, so the shape that was
  there is not overwritten and no entry is added. (The empty name cannot be passed:
  \<open>create\<close> takes it for no name.)
\<close>

theorem create_duplicate_name:
  assumes "items s name = Some r" and "truthyRef r" and "name \<noteq> []"
  shows "create (Some name) type s = Return None (log (DuplicateName name) s)
         \<and> returned (create (Some name) type s) = Some None
         \<and> console (stateOf (create (Some name) type s))
             = console s @
               [\<lparr>className = lineNumber s,
                 shownNumber = (if lastConsoleLineNumber s = lineNumber s then None else Some (lineNumber s)),
                 message = DuplicateName name\<rparr>]
         \<and> map message (console (stateOf (create (Some name) type s)))
             = map message (console s) @ [DuplicateName name]
         \<and> items (stateOf (create (Some name) type s)) = items s
         \<and> objs (stateOf (create (Some name) type s)) = objs s
         \<and> nextObj (stateOf (create (Some name) type s)) = nextObj s
         \<and> svg (stateOf (create (Some name) type s)) = svg s
         \<and> withObjName (stateOf (create (Some name) type s)) = withObjName s
         \<and> items (log (DuplicateName name) s) = items s
         \<and> objs (log (DuplicateName name) s) = objs s
         \<and> svg (log (DuplicateName name) s) = svg s"
  using assms by (simp add: create_def items_get_def log_def)

theorem create_duplicate_name_witness:
  "items (globals (render ''new rect box'' started)) ''box'' = Some (ShapeRef 0)
   \<and> truthyRef (ShapeRef 0)
   \<and> create (Some ''box'') (Some ''line'') (globals (render ''new rect box'' started))
       = Return None (log (DuplicateName ''box'') (globals (render ''new rect box'' started)))
   \<and> map message (console (stateOf
         (create (Some ''box'') (Some ''line'') (globals (render ''new rect box'' started)))))
       = [Echo ''new rect box'', Created ''rect'' ''box'', DuplicateName ''box'']
   \<and> items (stateOf (create (Some ''box'') (Some ''line'') (globals (render ''new rect box'' started))))
         ''box'' = Some (ShapeRef 0)
   \<and> variant (objs (stateOf
         (create (Some ''box'') (Some ''line'') (globals (render ''new rect box'' started)))) 0) = Rectangle"
proof -
  have present: "items (globals (render ''new rect box'' started)) ''box'' = Some (ShapeRef 0)"
    by code_simp
  have before: "map message (console (globals (render ''new rect box'' started)))
      = [Echo ''new rect box'', Created ''rect'' ''box'']
    \<and> variant (objs (globals (render ''new rect box'' started)) 0) = Rectangle"
    by code_simp
  from create_duplicate_name [OF present, of "Some ''line''"] present before
  show ?thesis by (simp add: log_def)
qed

text \<open>
  C10: in \<open>create\<close> the check for a duplicate comes before the check of the name and of the
  type. For every name that is in the registry (the registry holds a shape or any other
  object under it) and is invalid, whether by the test \<open>create\<close> applies or by the rule as it
  is worded, the failure logged is DuplicateName and not InvalidName, and the registry is
  unchanged.
\<close>

theorem duplicate_check_first:
  assumes "items s name = Some r" and "truthyRef r" and "name \<noteq> []"
    and "\<not> varNamingRule name \<or> \<not> statedNamingRule name"
  shows "create (Some name) type s = Return None (log (DuplicateName name) s)
         \<and> message (last (console (log (DuplicateName name) s))) = DuplicateName name
         \<and> message (last (console (log (DuplicateName name) s))) \<noteq> InvalidName
         \<and> items (log (DuplicateName name) s) = items s"
  using assms(1,2,3) by (simp add: create_def items_get_def log_def)

theorem duplicate_check_first_witness:
  "items (globals (render ''new rect 1abc'' started)) ''1abc'' = Some (ShapeRef 0)
   \<and> truthyRef (ShapeRef 0)
   \<and> \<not> statedNamingRule ''1abc''
   \<and> create (Some ''1abc'') (Some ''rect'') (globals (render ''new rect 1abc'' started))
       = Return None (log (DuplicateName ''1abc'') (globals (render ''new rect 1abc'' started)))"
proof -
  have present: "items (globals (render ''new rect 1abc'' started)) ''1abc'' = Some (ShapeRef 0)"
    by code_simp
  have invalid: "\<not> statedNamingRule ''1abc''"
    by code_simp
  from duplicate_check_first [OF present _ _ disjI2 [OF invalid], of "Some ''rect''"] present invalid
  show ?thesis by simp
qed

text \<open>
  C2: the name \<open>1abc\<close> does not start with a letter, yet the unanchored pattern finds \<open>ab\<close>
  in it: \<open>create\<close> accepts the name, enters the shape in the registry and logs that it
  was created. The one-letter name \<open>a\<close>, valid by the rule as worded, is rejected.
\<close>

theorem create_1abc_accepted:
  "varNamingRule ''1abc''
   \<and> \<not> statedNamingRule ''1abc''
   \<and> (case create (Some ''1abc'') (Some ''rect'') (globals started) of
        Return (Some a) s \<Rightarrow>
          items s ''1abc'' = Some (ShapeRef a) \<and> map message (console s) = [Created ''rect'' ''1abc'']
      | _ \<Rightarrow> False)
   \<and> statedNamingRule ''a'' \<and> \<not> varNamingRule ''a''"
  by code_simp

text \<open>
  A type that only the prototype has: \<open>new constructor foo\<close> gets as far as attaching and
  throws there, with the String object entered under \<open>foo\<close> and \<open>foo\<close> selected, and nothing
  logged or drawn; \<open>hasOwnProperty\<close> leaves a boolean, \<open>valueOf\<close> the table of object types and
  \<open>__lookupGetter__\<close> the value \<open>undefined\<close>; \<open>__defineGetter__\<close> and \<open>__proto__\<close> throw at
  the call, before anything is entered.
\<close>

lemma create_inherited_type:
  "(case create (Some ''foo'') (Some ''constructor'') (globals started) of
      Throw e s \<Rightarrow>
        e = TypeError \<and> items s ''foo'' = Some (StringObject ''foo'')
        \<and> withObjName s = Some (Some ''foo'') \<and> console s = [] \<and> svg s = [] \<and> nextObj s = 0
    | _ \<Rightarrow> False)
   \<and> items (stateOf (create (Some ''rect'') (Some ''hasOwnProperty'') (globals started))) ''rect''
       = Some (Boolean True)
   \<and> items (stateOf (create (Some ''foo'') (Some ''hasOwnProperty'') (globals started))) ''foo''
       = Some (Boolean False)
   \<and> items (stateOf (create (Some ''foo'') (Some ''valueOf'') (globals started))) ''foo''
       = Some TypesObject
   \<and> items (stateOf (create (Some ''foo'') (Some ''toString'') (globals started))) ''foo''
       = Some (StringValue ''[object Object]'')
   \<and> items (stateOf (create (Some ''foo'') (Some ''__lookupGetter__'') (globals started))) ''foo''
       = Some UndefinedValue
   \<and> returned (create (Some ''foo'') (Some ''__lookupGetter__'') (globals started)) = None
   \<and> items (stateOf (create (Some ''foo'') (Some ''__defineGetter__'') (globals started))) ''foo'' = None
   \<and> returned (create (Some ''foo'') (Some ''__defineGetter__'') (globals started)) = None
   \<and> items (stateOf (create (Some ''foo'') (Some ''__proto__'') (globals started))) ''foo'' = None
   \<and> withObjName (stateOf (create (Some ''foo'') (Some ''__proto__'') (globals started))) = None
   \<and> returned (create (Some ''foo'') (Some ''__proto__'') (globals started)) = None"
  by code_simp

section \<open>Exceptions\<close>

text \<open>
  C1: \<open>points\<close> on an existing rectangle. The handler calls \<open>setPoints\<close> on the object,
  which a rectangle does not have: the handler does not return but throws, and so does the
  callback for the line; TypeError ends the run there, and the third line, which would paint
  the rectangle, is never executed.
\<close>

theorem points_on_rectangle_throws:
  "returned (setPoints (Some ''box'') [''1,2'', ''3,4'']
      (endState (forEachPromise [''new rect box''] (globals started)))) = None
   \<and> returned (execLine ''points box 1,2 3,4''
      (endState (forEachPromise [''new rect box''] (globals started)))) = None
   \<and> (case forEachPromise [''new rect box'', ''points box 1,2 3,4'', ''paint box red''] (globals started) of
      Crashed e s \<Rightarrow>
        e = TypeError
        \<and> map message (console s) =
            [Echo ''new rect box'', Created ''rect'' ''box'', Echo ''points box 1,2 3,4'']
        \<and> fill (objs s 0) = Str []
    | _ \<Rightarrow> False)"
  by code_simp

section \<open>Numbers in commands\<close>



text \<open>
  C4, as the claim has it, fails for \<open>wait 0 seconds\<close>: the timer is started with a delay
  of 1000000 milliseconds, not 1000.
\<close>

theorem wait_zero_seconds_counterexample:
  "timeouts (endState (forEachPromise [''wait 0 seconds'', ''new rect box''] (globals started)))
     = [(0, Fin 1000000, TimerFinished ''0'' ''second'')]
   \<and> Fin 1000000 \<noteq> Fin 1000"
  by code_simp

text \<open>
  C4, amended: \<open>wait N [unit]\<close> starts one timer. Its delay in milliseconds is N times f
  when N is a positive number, and 1000 times f when N is missing, is no number, or is
  zero or negative; f is 1000 when the unit token is \<open>seconds\<close>, \<open>second\<close>, \<open>sec\<close> or \<open>s\<close>
  in any mix of cases, and 1 otherwise. So the default is 1000 ms without such a unit
  and 1000000 ms with it.
\<close>

theorem wait_delay:
  "map (fst \<circ> snd) (timeouts (stateOf (wait n unitName s)))
     = map (fst \<circ> snd) (timeouts s) @
       [case toNumber n of
          Fin q \<Rightarrow> Fin ((if 0 < q then q else 1000) * (if isSeconds unitName then 1000 else 1))
        | PInf \<Rightarrow> PInf
        | _ \<Rightarrow> Fin (1000 * (if isSeconds unitName then 1000 else 1))]
   \<and> toNumber None = NaN
   \<and> (isSeconds unitName \<longleftrightarrow> map toLower (str unitName) \<in> {''seconds'', ''second'', ''sec'', ''s''})"
  by (cases "toNumber n") (simp_all add: wait_def Let_def isSeconds_def log_def)

section \<open>Moving and sizing\<close>

lemma points_setAttrs: "points (setAttrs kvs sh) = points sh"
  by (simp add: setAttrs_def)

lemma variant_setAttrs: "variant (setAttrs kvs sh) = variant sh"
  by (simp add: setAttrs_def)

lemma attrs_setAttrs2:
  "map_of (attrs (domElement (setAttrs [(k1, v1), (k2, v2)] sh)))
     = ((map_of (attrs (domElement sh)))(k1 \<mapsto> v1))(k2 \<mapsto> v2)"
  by (simp add: setAttrs_def setAttributeNS_def update_conv')

lemmas getters = shape_x_def shape_y_def shape_width_def shape_height_def

lemmas movers =
  Shape_moveBy_def Shape_moveTo_def Shape_sizeBy_def Shape_sizeTo_def
  Circle_moveBy_def Circle_moveTo_def Circle_sizeBy_def Circle_sizeTo_def
  Line_moveBy_def Line_moveTo_def Line_sizeBy_def Line_sizeTo_def

lemmas dispatch = shape_moveBy_def shape_moveTo_def shape_sizeBy_def shape_sizeTo_def


lemma points_moveTo:
  "points (shape_moveTo x y sh) = (Point_moveTo x y (fst (points sh)), snd (points sh))"
  by (cases "variant sh") (simp_all add: dispatch movers Let_def points_setAttrs points0_def)


lemma points_sizeTo:
  "points (shape_sizeTo x y sh) = (fst (points sh), Point_moveTo x y (snd (points sh)))"
  by (cases "variant sh") (simp_all add: dispatch movers Let_def points_setAttrs points1_def)







text \<open>
  C6, as the claim has it, fails on a new line moved to (10, 20) and then sized to (5, 5):
  \<open>x2\<close> is written as 15, the origin after the move plus the extent, not as 5, the
  origin before the move plus the extent.
\<close>

theorem line_size_counterexample:
  "shape_x (objs (endState (forEachPromise [''new line ln''] (globals started))) 0) = Fin 0
   \<and> map_of (attrs (domElement (objs (endState
        (forEachPromise [''new line ln'', ''position ln 10 20'', ''size ln 5 5''] (globals started))) 0))) ''x2''
       = Some (Num (Fin 15))
   \<and> Num (Fin 15) \<noteq> Num (nadd (Fin 0) (Fin 5))"
  by code_simp

text \<open>
  C6, amended: on every Line, \<open>moveTo\<close> writes its two arguments to \<open>x1\<close> and \<open>y1\<close> and
  leaves \<open>x2\<close> and \<open>y2\<close> as they were; \<open>moveBy\<close>, \<open>setStroke\<close> and the setter of \<open>fill\<close> leave
  them too. Only \<open>sizeTo\<close> and \<open>sizeBy\<close> write \<open>x2\<close> and \<open>y2\<close>, as the origin the line has
  when they are called plus the new extent: after a \<open>moveTo\<close>, that is the origin moved to.
\<close>

theorem line_end_points:
  assumes "variant sh = Line"
  shows "map_of (attrs (domElement (shape_moveTo x y sh))) ''x1'' = Some (numOrNull x)
    \<and> map_of (attrs (domElement (shape_moveTo x y sh))) ''y1'' = Some (numOrNull y)
    \<and> map_of (attrs (domElement (shape_moveTo x y sh))) ''x2'' = map_of (attrs (domElement sh)) ''x2''
    \<and> map_of (attrs (domElement (shape_moveTo x y sh))) ''y2'' = map_of (attrs (domElement sh)) ''y2''
    \<and> map_of (attrs (domElement (shape_moveBy x y sh))) ''x2'' = map_of (attrs (domElement sh)) ''x2''
    \<and> map_of (attrs (domElement (shape_moveBy x y sh))) ''y2'' = map_of (attrs (domElement sh)) ''y2''
    \<and> map_of (attrs (domElement (Shape_setStroke c w sh))) ''x2'' = map_of (attrs (domElement sh)) ''x2''
    \<and> map_of (attrs (domElement (Shape_setStroke c w sh))) ''y2'' = map_of (attrs (domElement sh)) ''y2''
    \<and> map_of (attrs (domElement (set_fill v sh))) ''x2'' = map_of (attrs (domElement sh)) ''x2''
    \<and> map_of (attrs (domElement (set_fill v sh))) ''y2'' = map_of (attrs (domElement sh)) ''y2''
    \<and> map_of (attrs (domElement (shape_sizeTo x y sh))) ''x2''
        = Some (Num (nadd (shape_x sh) (shape_width (shape_sizeTo x y sh))))
    \<and> map_of (attrs (domElement (shape_sizeTo x y sh))) ''y2''
        = Some (Num (nadd (shape_y sh) (shape_height (shape_sizeTo x y sh))))
    \<and> map_of (attrs (domElement (shape_sizeBy x y sh))) ''x2''
        = Some (Num (nadd (shape_x sh) (shape_width (shape_sizeBy x y sh))))
    \<and> map_of (attrs (domElement (shape_sizeBy x y sh))) ''y2''
        = Some (Num (nadd (shape_y sh) (shape_height (shape_sizeBy x y sh))))
    \<and> map_of (attrs (domElement (shape_sizeTo (Some dx) (Some dy) (shape_moveTo (Some x0) (Some y0) sh)))) ''x2''
        = Some (Num (nadd x0 dx))
    \<and> map_of (attrs (domElement (shape_sizeTo (Some dx) (Some dy) (shape_moveTo (Some x0) (Some y0) sh)))) ''y2''
        = Some (Num (nadd y0 dy))"
  using assms
  by (simp add: dispatch Line_moveBy_def Line_moveTo_def Line_sizeBy_def Line_sizeTo_def
      Shape_setStroke_def set_fill_def Let_def attrs_setAttrs2 variant_setAttrs points_setAttrs
      points0_def points1_def getters setAttributeNS_def update_conv' Point_moveTo_def)

theorem line_end_points_witness:
  "variant (Line_create ''ln'') = Line
   \<and> map_of (attrs (domElement (shape_moveTo (Some (Fin 10)) (Some (Fin 20)) (Line_create ''ln'')))) ''x1'' = Some (Num (Fin 10))
   \<and> map_of (attrs (domElement (shape_moveTo (Some (Fin 10)) (Some (Fin 20)) (Line_create ''ln'')))) ''x2'' = None
   \<and> map_of (attrs (domElement (shape_sizeTo (Some (Fin 5)) (Some (Fin 5))
        (shape_moveTo (Some (Fin 10)) (Some (Fin 20)) (Line_create ''ln''))))) ''x2'' = Some (Num (Fin 15))"
proof -
  have line: "variant (Line_create ''ln'') = Line"
    by (simp add: Line_create_def Shape_def)
  have fresh: "map_of (attrs (domElement (Line_create ''ln''))) ''x2'' = None"
    by (simp add: Line_create_def Shape_def createElementNS_def)
  from line_end_points [OF line, of "Some (Fin 10)" "Some (Fin 20)" _ _ _ "Fin 5" "Fin 5" "Fin 10" "Fin 20"] line fresh
  show ?thesis by simp
qed

section \<open>Lines that start with white space\<close>

lemma split_not_Nil: "split c s \<noteq> []"
  by (induction s) (auto split: list.splits)

lemma split_no_sep: "w \<in> set (split c s) \<Longrightarrow> c \<notin> set w"
  by (induction s arbitrary: w) (auto split: list.splits if_splits)

lemma cleanCommand_words: "filter (\<lambda>w. w \<notin> set ['' '']) (split (CHR '' '') t) = split (CHR '' '') t"
proof -
  have "\<And>w. w \<in> set (split (CHR '' '') t) \<Longrightarrow> w \<noteq> '' ''"
    using split_no_sep [of _ "CHR '' ''" t] by fastforce
  then show ?thesis
    by (simp add: filter_id_conv)
qed

text \<open>
  C7: for every line that begins with white space, tokenization puts the name of the
  selected object, as a string, in second place among the words, where a command finds
  its first argument; the command word and the other words are those of the trimmed line.
  In particular, after \<open>new rectangle background\<close> the line \<open>  paint black\<close> is read as the
  same words as \<open>paint background black\<close>, and the two lines leave the rectangle in the
  same state and log the same report after their echo.
\<close>

theorem leading_space_selects:
  "(line \<noteq> [] \<and> isWhite (hd line) \<longrightarrow>
      (\<exists>command args. split (CHR '' '') (trim line) = command # args
         \<and> cleanCommand line s = command # selected (withObjName s) # args
         \<and> elemAt (cleanCommand line s) 1 = Some (selected (withObjName s))))
   \<and> withObjName (endState (forEachPromise [''new rectangle background''] (globals started)))
       = Some (Some ''background'')
   \<and> cleanCommand ''  paint black'' (endState (forEachPromise [''new rectangle background''] (globals started)))
       = [''paint'', ''background'', ''black'']
   \<and> cleanCommand ''paint background black'' (endState (forEachPromise [''new rectangle background''] (globals started)))
       = [''paint'', ''background'', ''black'']
   \<and> objs (endState (forEachPromise [''new rectangle background'', ''  paint black''] (globals started))) 0
       = objs (endState (forEachPromise [''new rectangle background'', ''paint background black''] (globals started))) 0
   \<and> fill (objs (endState (forEachPromise [''new rectangle background'', ''  paint black''] (globals started))) 0)
       = Str ''black''
   \<and> map message (console (endState (forEachPromise [''new rectangle background'', ''  paint black''] (globals started))))
       = [Echo ''new rectangle background'', Created ''rectangle'' ''background'',
          Echo ''  paint black'', Painting ''background'' ''black'']
   \<and> map message (console (endState (forEachPromise [''new rectangle background'', ''paint background black''] (globals started))))
       = [Echo ''new rectangle background'', Created ''rectangle'' ''background'',
          Echo ''paint background black'', Painting ''background'' ''black'']"
proof -
  have general: "line \<noteq> [] \<and> isWhite (hd line) \<longrightarrow>
      (\<exists>command args. split (CHR '' '') (trim line) = command # args
         \<and> cleanCommand line s = command # selected (withObjName s) # args
         \<and> elemAt (cleanCommand line s) 1 = Some (selected (withObjName s)))"
  proof -
    obtain command args where pieces: "split (CHR '' '') (trim line) = command # args"
      using split_not_Nil [of "CHR '' ''" "trim line"] by (cases "split (CHR '' '') (trim line)") auto
    have kept: "filter (\<lambda>w. w \<notin> set ['' '']) (command # args) = command # args"
      using cleanCommand_words [of "trim line"] by (simp only: pieces)
    have "cleanCommand line s = command # selected (withObjName s) # args"
      if "line \<noteq> []" and "isWhite (hd line)"
      using that by (simp only: cleanCommand_def Let_def pieces kept) simp
    then show ?thesis
      using pieces by auto
  qed
  have example: "withObjName (endState (forEachPromise [''new rectangle background''] (globals started)))
       = Some (Some ''background'')
   \<and> cleanCommand ''  paint black'' (endState (forEachPromise [''new rectangle background''] (globals started)))
       = [''paint'', ''background'', ''black'']
   \<and> cleanCommand ''paint background black'' (endState (forEachPromise [''new rectangle background''] (globals started)))
       = [''paint'', ''background'', ''black'']
   \<and> objs (endState (forEachPromise [''new rectangle background'', ''  paint black''] (globals started))) 0
       = objs (endState (forEachPromise [''new rectangle background'', ''paint background black''] (globals started))) 0
   \<and> fill (objs (endState (forEachPromise [''new rectangle background'', ''  paint black''] (globals started))) 0)
       = Str ''black''
   \<and> map message (console (endState (forEachPromise [''new rectangle background'', ''  paint black''] (globals started))))
       = [Echo ''new rectangle background'', Created ''rectangle'' ''background'',
          Echo ''  paint black'', Painting ''background'' ''black'']
   \<and> map message (console (endState (forEachPromise [''new rectangle background'', ''paint background black''] (globals started))))
       = [Echo ''new rectangle background'', Created ''rectangle'' ''background'',
          Echo ''paint background black'', Painting ''background'' ''black'']"
    by code_simp
  from general example show ?thesis by blast
qed

theorem leading_space_selects_witness:
  "''  paint black'' \<noteq> [] \<and> isWhite (hd ''  paint black'')
   \<and> elemAt (cleanCommand ''  paint black''
         (endState (forEachPromise [''new rectangle background''] (globals started)))) 1
       = Some ''background''"
proof -
  have white: "''  paint black'' \<noteq> [] \<and> isWhite (hd ''  paint black'')"
    by (simp add: isWhite_def)
  from leading_space_selects [of "''  paint black''"
      "endState (forEachPromise [''new rectangle background''] (globals started))"] white
  show ?thesis by auto
qed

section \<open>Timers and re-runs\<close>


lemma stateOf_plain: "stateOf (plain c) = stateOf c"
  by (cases c) simp_all

lemma returned_plain: "returned (plain c) \<noteq> Some (Promise t)"
  by (cases c) simp_all

lemma timerFields_log: "timerFields (log m s) = timerFields s"
  by (simp add: timerFields_def log_def)

lemma timerFields_create: "timerFields (stateOf (create v ty s)) = timerFields s"
  by (simp add: create_def generateName_def Let_def timerFields_def log_def appendChild_def
      split: option.splits ref.splits)

lemma create_Return_timers: "create v ty s = Return r s1 \<Longrightarrow> timerFields s1 = timerFields s"
  using timerFields_create [of v ty s] by simp

lemma create_Throw_timers: "create v ty s = Throw e s1 \<Longrightarrow> timerFields s1 = timerFields s"
  using timerFields_create [of v ty s] by simp

lemmas handler_defs =
  getItem_def call_def assign_def update_def log_def appendChild_def timerFields_def Let_def

lemma timerFields_paint: "timerFields (stateOf (paint v c s)) = timerFields s"
  by (simp add: paint_def handler_defs split: option.splits ref.splits)

lemma timerFields_writeText: "timerFields (stateOf (writeText v ws s)) = timerFields s"
  by (simp add: writeText_def handler_defs split: option.splits ref.splits)

lemma timerFields_remove: "timerFields (stateOf (remove v s)) = timerFields s"
  by (simp add: remove_def handler_defs split: option.splits ref.splits)

lemma timerFields_setStroke: "timerFields (stateOf (setStroke v c w s)) = timerFields s"
  by (simp add: setStroke_def handler_defs split: option.splits ref.splits)

lemma timerFields_moveTo: "timerFields (stateOf (moveTo v x y s)) = timerFields s"
  by (simp add: moveTo_def handler_defs split: option.splits ref.splits)

lemma timerFields_moveBy: "timerFields (stateOf (moveBy v x y s)) = timerFields s"
  by (simp add: moveBy_def handler_defs split: option.splits ref.splits)

lemma timerFields_sizeTo: "timerFields (stateOf (sizeTo v x y s)) = timerFields s"
  by (simp add: sizeTo_def handler_defs split: option.splits ref.splits)

lemma timerFields_sizeBy: "timerFields (stateOf (sizeBy v x y s)) = timerFields s"
  by (simp add: sizeBy_def handler_defs split: option.splits ref.splits)

lemma timerFields_setPoints: "timerFields (stateOf (setPoints v ps s)) = timerFields s"
  by (simp add: setPoints_def handler_defs split: option.splits ref.splits)

lemma timerFields_setWith: "timerFields (stateOf (setWith v s)) = timerFields s"
  by (simp add: setWith_def handler_defs split: option.splits ref.splits)

lemma timerFields_clone: "timerFields (stateOf (clone v w s)) = timerFields s"
proof (cases "items_get s (str v)")
  case None
  then show ?thesis by (simp add: clone_def handler_defs)
next
  case (Some r)
  have other: "timerFields (stateOf (case create w None s of Throw e s2 \<Rightarrow> Throw e s2 | Return x s2 \<Rightarrow> Return None s2)) = timerFields s"
    using timerFields_create [of w None s] by (cases "create w None s") simp_all
  show ?thesis
  proof (cases r)
    case (ShapeRef a)
    show ?thesis
    proof (cases "create w (Some (shape_type (objs s a))) s")
      case (Return b s2)
      then have "timerFields s2 = timerFields s" by (rule create_Return_timers)
      then show ?thesis using Some ShapeRef Return
        by (cases b) (simp_all add: clone_def handler_defs)
    next
      case (Throw e s2)
      then have "timerFields s2 = timerFields s" by (rule create_Throw_timers)
      then show ?thesis using Some ShapeRef Throw
        by (simp add: clone_def handler_defs)
    qed
  qed (use Some other in \<open>simp_all add: clone_def getItem_def\<close>)
qed

lemma extends_refl: "extends s s"
  by (simp add: extends_def)

lemma extends_trans: "extends s s1 \<Longrightarrow> extends s1 s2 \<Longrightarrow> extends s s2"
  unfolding extends_def by (metis le_trans)

lemma extends_frame: "timerFields s' = timerFields s \<Longrightarrow> extends s s'"
  by (simp add: extends_def timerFields_def)

lemma timersKnown_frame: "timerFields s' = timerFields s \<Longrightarrow> timersKnown s' = timersKnown s"
  by (simp add: timersKnown_def timerFields_def)

lemma noneBelow_extends: "noneBelow n s \<Longrightarrow> extends s s' \<Longrightarrow> noneBelow n s'"
  unfolding noneBelow_def extends_def by (metis le_trans)

lemma okStep_frame:
  "timersKnown s \<Longrightarrow> timerFields (stateOf c) = timerFields s \<Longrightarrow> okStep s (plain c)"
proof -
  assume known: "timersKnown s" and same: "timerFields (stateOf c) = timerFields s"
  from same have "timersKnown (stateOf c)"
    using known timersKnown_frame [OF same] by simp
  moreover from same have "extends s (stateOf c)"
    by (rule extends_frame)
  ultimately show ?thesis
    by (simp add: okStep_def stateOf_plain returned_plain)
qed

lemma okStep_wait: "timersKnown s \<Longrightarrow> okStep s (wait n u s)"
  by (auto simp: okStep_def wait_def Let_def log_def timersKnown_def extends_def)

lemma timeouts_clearTimeout: "timeouts (clearTimeout t s) = filter (\<lambda>e. fst e \<noteq> t) (timeouts s)"
  by (simp add: clearTimeout_def)

lemma nextTimer_clearTimeout: "nextTimer (clearTimeout t s) = nextTimer s"
  by (simp add: clearTimeout_def)

lemma clearTimeouts:
  "timeouts (foldl (\<lambda>s t. clearTimeout t s) s ts) = filter (\<lambda>e. fst e \<notin> set ts) (timeouts s)
   \<and> nextTimer (foldl (\<lambda>s t. clearTimeout t s) s ts) = nextTimer s"
proof (induction ts arbitrary: s)
  case Nil
  show ?case by simp
next
  case (Cons t ts)
  show ?case
    by (simp add: Cons.IH timeouts_clearTimeout nextTimer_clearTimeout conj_commute)
qed

lemma reset_timers:
  "timeouts (reset s) = filter (\<lambda>e. fst e \<notin> set (timers s)) (timeouts s)
   \<and> nextTimer (reset s) = nextTimer s \<and> timers (reset s) = []"
  by (simp add: reset_def Let_def clearTimeouts)

lemma reset_cancels: "timersKnown s \<Longrightarrow> timeouts (reset s) = []"
  by (auto simp: reset_timers timersKnown_def filter_empty_conv)

lemma okStep_reset: "timersKnown s \<Longrightarrow> okStep s (Return Value (reset s))"
  by (simp add: okStep_def reset_cancels timersKnown_def extends_def reset_timers)

lemmas handler_frames =
  timerFields_paint timerFields_remove timerFields_create timerFields_clone timerFields_writeText
  timerFields_sizeTo timerFields_moveTo timerFields_setStroke timerFields_setWith timerFields_moveBy
  timerFields_setPoints timerFields_sizeBy

lemma okStep_command:
  assumes "commands k = Some command" and "timersKnown s"
  shows "okStep s (command ws s)"
  using assms
  by (auto simp: commands_def okStep_frame handler_frames okStep_wait okStep_reset split: if_splits)

lemma okStep_shift:
  assumes "timerFields s1 = timerFields s" and "okStep s1 c"
  shows "okStep s c"
  using assms by (simp add: okStep_def extends_def timerFields_def)

lemma okStep_Value:
  "timersKnown s \<Longrightarrow> timerFields s' = timerFields s \<Longrightarrow> okStep s (Return Value s')"
  using okStep_frame [of s "Return () s'"] by simp

lemma okStep_Throw:
  "timersKnown s \<Longrightarrow> timerFields s' = timerFields s \<Longrightarrow> okStep s (Throw e s')"
  using okStep_frame [of s "Throw e s' :: unit completion"] by simp

lemma okStep_execLine:
  assumes "timersKnown s"
  shows "okStep s (execLine line s)"
proof (cases "line = []")
  case True
  have "timerFields (s\<lparr>lineNumber := lineNumber s + 1\<rparr>) = timerFields s"
    by (simp add: timerFields_def)
  with assms have "okStep s (Return Value (s\<lparr>lineNumber := lineNumber s + 1\<rparr>))"
    by (rule okStep_Value)
  then show ?thesis
    using True by (simp add: execLine_def)
next
  case False
  define s2 where "s2 = log (Echo line) (s\<lparr>lineNumber := lineNumber s + 1\<rparr>)"
  define action where
    "action = str (if elemAt (cleanCommand line s2) 0 = Some '' '' then elemAt (cleanCommand line s2) 1
                   else elemAt (cleanCommand line s2) 0)"
  have same: "timerFields s2 = timerFields s"
    by (simp add: s2_def timerFields_def log_def)
  then have known: "timersKnown s2"
    using assms timersKnown_frame [OF same] by simp
  have line: "execLine line s =
      (case commands action of
         Some command \<Rightarrow> command (cleanCommand line s2) s2
       | None \<Rightarrow> if inherited s2 action \<noteq> None then callInherited action s2
                 else Return Value (log (UnknownCommand action) s2))"
    unfolding execLine_def Let_def s2_def action_def by (simp only: False not_False_eq_True if_True)
  have "okStep s2 (execLine line s)"
  proof (cases "commands action")
    case (Some command)
    then show ?thesis
      using line okStep_command [OF Some known] by simp
  next
    case None
    have "okStep s2 (Return Value (log (UnknownCommand action) s2))"
      using known timerFields_log by (rule okStep_Value)
    moreover have "okStep s2 (Return Value s2)" and "okStep s2 (Throw TypeError s2)"
      using known by (simp_all add: okStep_Value okStep_Throw)
    ultimately show ?thesis
      using line None by (auto simp: callInherited_def)
  qed
  with same show ?thesis
    by (rule okStep_shift)
qed

lemma okRun_forEachPromise:
  "timersKnown s \<Longrightarrow> okRun s (forEachPromise ls s)"
proof (induction ls arbitrary: s)
  case Nil
  then show ?case by (simp add: extends_refl)
next
  case (Cons line rest)
  have step: "okStep s (execLine line s)"
    using Cons.prems by (rule okStep_execLine)
  show ?case
  proof (cases "execLine line s")
    case (Throw e s1)
    then show ?thesis using step by (simp add: okStep_def)
  next
    case (Return v s1)
    show ?thesis
    proof (cases v)
      case (Promise t)
      then show ?thesis using step Return by (simp add: okStep_def)
    next
      case Value
      from step Return have known: "timersKnown s1" and ext: "extends s s1"
        by (simp_all add: okStep_def)
      have "okRun s1 (forEachPromise rest s1)"
        using known by (rule Cons.IH)
      then have "okRun s (forEachPromise rest s1)"
        using ext by (cases "forEachPromise rest s1") (auto intro: extends_trans)
      then show ?thesis using Return Value by simp
    qed
  qed
qed

lemma pageInv_settle:
  assumes "pageInv pg" and "okRun s r" and "extends (globals pg) s"
  shows "pageInv (settle r pg) \<and> extends (globals pg) (globals (settle r pg))"
proof -
  have later: "extends (globals pg) (endState r)" and known: "timersKnown (endState r)"
    using assms(2,3) by (cases r; auto intro: extends_trans)+
  have bound: "\<forall>e \<in> set (awaiting pg). fst e < nextTimer (endState r)"
    using assms(1) later by (fastforce simp: pageInv_def extends_def)
  show ?thesis
    using later known bound assms(2) by (cases r) (simp_all add: pageInv_def)
qed

lemma extends_reset: "extends s (reset s)"
  by (simp add: extends_def reset_timers)

lemma timersKnown_reset: "timersKnown s \<Longrightarrow> timersKnown (reset s)"
  by (simp add: timersKnown_def reset_cancels [unfolded timersKnown_def])

lemma render_run:
  "render script pg =
     settle (forEachPromise (split (CHR 0x0A) script) ((reset (globals pg))\<lparr>console := []\<rparr>)) pg"
  by (simp add: render_def Let_def)

lemma pageInv_render:
  assumes "pageInv pg"
  shows "pageInv (render script pg) \<and> extends (globals pg) (globals (render script pg))"
proof -
  let ?s = "(reset (globals pg))\<lparr>console := []\<rparr>"
  have same: "timerFields ?s = timerFields (reset (globals pg))"
    by (simp add: timerFields_def)
  have known: "timersKnown ?s"
    using assms timersKnown_reset timersKnown_frame [OF same] by (simp add: pageInv_def)
  have ext: "extends (globals pg) ?s"
    using extends_reset [of "globals pg"] extends_frame [OF same] by (rule extends_trans)
  from assms okRun_forEachPromise [OF known] ext show ?thesis
    unfolding render_run by (rule pageInv_settle)
qed

lemma noneBelow_render:
  assumes "pageInv pg"
  shows "noneBelow (nextTimer (globals pg)) (globals (render script pg))"
proof -
  let ?s = "(reset (globals pg))\<lparr>console := []\<rparr>"
  have same: "timerFields ?s = timerFields (reset (globals pg))"
    by (simp add: timerFields_def)
  have known: "timersKnown ?s"
    using assms timersKnown_reset timersKnown_frame [OF same] by (simp add: pageInv_def)
  have "timeouts (reset (globals pg)) = []"
    using assms by (simp add: pageInv_def reset_cancels)
  then have cleared: "noneBelow (nextTimer (globals pg)) ?s"
    by (simp add: noneBelow_def reset_timers [THEN conjunct2])
  have "extends ?s (endState (forEachPromise (split (CHR 0x0A) script) ?s))"
    using okRun_forEachPromise [OF known, of "split (CHR 0x0A) script"]
    by (cases "forEachPromise (split (CHR 0x0A) script) ?s") simp_all
  with cleared have "noneBelow (nextTimer (globals pg)) (endState (forEachPromise (split (CHR 0x0A) script) ?s))"
    by (rule noneBelow_extends)
  then show ?thesis
    unfolding render_run by (cases "forEachPromise (split (CHR 0x0A) script) ?s") simp_all
qed

lemma pageInv_fire:
  assumes "pageInv pg"
  shows "pageInv (fire t pg) \<and> extends (globals pg) (globals (fire t pg))"
proof (cases "map_of (timeouts (globals pg)) t")
  case None
  then show ?thesis
    using assms by (simp add: fire_def extends_refl)
next
  case (Some entry)
  obtain ms m where entry: "entry = (ms, m)"
    by (cases entry)
  let ?s = "log m (clearTimeout t (globals pg))"
  let ?pg = "pg\<lparr>awaiting := filter (\<lambda>e. fst e \<noteq> t) (awaiting pg)\<rparr>"
  have fields: "timeouts ?s = filter (\<lambda>e. fst e \<noteq> t) (timeouts (globals pg))"
    "nextTimer ?s = nextTimer (globals pg)" "timers ?s = timers (globals pg)"
    by (simp_all add: log_def clearTimeout_def)
  have known: "timersKnown ?s"
    using assms by (simp add: pageInv_def timersKnown_def fields)
  have ext: "extends (globals pg) ?s"
    by (simp add: extends_def fields)
  show ?thesis
  proof (cases "map_of (awaiting pg) t")
    case None
    then show ?thesis
      using Some entry assms known ext by (simp add: fire_def pageInv_def fields)
  next
    case (Some rest)
    have inv: "pageInv ?pg"
      using assms by (simp add: pageInv_def)
    have run: "okRun ?s (forEachPromise rest ?s)"
      using known by (rule okRun_forEachPromise)
    have "pageInv (settle (forEachPromise rest ?s) ?pg)
        \<and> extends (globals ?pg) (globals (settle (forEachPromise rest ?s) ?pg))"
      using inv run ext by (intro pageInv_settle) simp_all
    then show ?thesis
      using Some \<open>map_of (timeouts (globals pg)) t = Some entry\<close> entry by (simp add: fire_def)
  qed
qed

lemma pageInv_step:
  "pageInv pg \<Longrightarrow> pageInv (step e pg) \<and> extends (globals pg) (globals (step e pg))"
  by (cases e) (simp_all add: pageInv_render pageInv_fire)

lemma pageInv_steps:
  "pageInv pg \<Longrightarrow> pageInv (steps es pg) \<and> extends (globals pg) (globals (steps es pg))"
proof (induction es arbitrary: pg)
  case Nil
  then show ?case by (simp add: steps_def extends_refl)
next
  case (Cons e es)
  have first: "pageInv (step e pg)" "extends (globals pg) (globals (step e pg))"
    using Cons.prems pageInv_step by simp_all
  have "steps (e # es) pg = steps es (step e pg)"
    by (simp add: steps_def)
  with Cons.IH [OF first(1)] first(2) show ?case
    by (auto intro: extends_trans)
qed

lemma pageInv_initial: "pageInv (initial gen)"
  by (simp add: pageInv_def timersKnown_def initial_def)

lemma pageInv_reachable: "pageInv (steps es (initial gen))"
  using pageInv_initial pageInv_steps by blast

lemma fire_idle: "map_of (timeouts (globals pg)) t = None \<Longrightarrow> fire t pg = pg"
  by (simp add: fire_def)

lemma noneBelow_idle: "noneBelow n s \<Longrightarrow> t < n \<Longrightarrow> map_of (timeouts s) t = None"
  by (fastforce simp: noneBelow_def map_of_eq_None_iff)

text \<open>
  C9: on every page that can be reached, whatever sequence waits for a timer when \<open>run\<close> is
  invoked is cut off for good. The reset that \<open>render\<close> starts with leaves no timer in
  the host's table; whatever happens on the page afterwards (further runs, timers
  firing), the handle the sequence waits for is never in the table again, so it cannot
  fire, and firing is the only thing that lets the sequence go on with its lines.
\<close>

theorem rerun_cancels_wait:
  assumes "pageInv pg" and "(t, rest) \<in> set (awaiting pg)"
  shows "timeouts (reset (globals pg)) = []
    \<and> map_of (timeouts (globals (steps es (render script pg)))) t = None
    \<and> fire t (steps es (render script pg)) = steps es (render script pg)"
proof -
  have cancelled: "timeouts (reset (globals pg)) = []"
    using assms(1) by (simp add: pageInv_def reset_cancels)
  have old: "t < nextTimer (globals pg)"
    using assms by (auto simp: pageInv_def)
  have "noneBelow (nextTimer (globals pg)) (globals (render script pg))"
    using assms(1) by (rule noneBelow_render)
  moreover have "extends (globals (render script pg)) (globals (steps es (render script pg)))"
    using assms(1) pageInv_render pageInv_steps by blast
  ultimately have "noneBelow (nextTimer (globals pg)) (globals (steps es (render script pg)))"
    by (rule noneBelow_extends)
  then have idle: "map_of (timeouts (globals (steps es (render script pg)))) t = None"
    using old by (rule noneBelow_idle)
  from cancelled idle fire_idle [OF idle] show ?thesis
    by simp
qed

text \<open>
  The page \<open>waiting\<close> is suspended on \<open>wait 2 seconds\<close> with a delay of 2000 ms. Left alone,
  the timer fires and the rectangle is painted; after a re-run the old handle fires nothing.
\<close>

theorem rerun_cancels_wait_witness:
  "pageInv waiting
   \<and> (0, [''paint box red'']) \<in> set (awaiting waiting)
   \<and> timeouts (globals waiting) = [(0, Fin 2000, TimerFinished ''2'' ''seconds'')]
   \<and> fill (objs (globals (fire 0 waiting)) 0) = Str ''red''
   \<and> timeouts (reset (globals waiting)) = []
   \<and> fire 0 (steps [] (render ''new rect other'' waiting)) = steps [] (render ''new rect other'' waiting)
   \<and> map message (console (globals (fire 0 (render ''new rect other'' waiting))))
       = [Echo ''new rect other'', Created ''rect'' ''other'']"
proof -
  have inv: "pageInv waiting"
    by code_simp
  have suspended: "(0, [''paint box red'']) \<in> set (awaiting waiting)"
    by code_simp
  have facts: "timeouts (globals waiting) = [(0, Fin 2000, TimerFinished ''2'' ''seconds'')]
      \<and> fill (objs (globals (fire 0 waiting)) 0) = Str ''red''
      \<and> map message (console (globals (fire 0 (render ''new rect other'' waiting))))
          = [Echo ''new rect other'', Created ''rect'' ''other'']"
    by code_simp
  from rerun_cancels_wait [OF inv suspended, of "[]" "''new rect other''"] inv suspended facts
  show ?thesis by simp
qed

section \<open>Cloning\<close>

lemma mutate_elsewhere:
  assumes "items s a = Some (ShapeRef pa)" and "pa \<noteq> n"
  shows "objs (mutate a m s) n = objs s n \<and> items (mutate a m s) = items s"
  using assms
  by (cases m)
     (simp_all add: moveTo_def moveBy_def sizeTo_def sizeBy_def paint_def setStroke_def
        getItem_def items_get_def call_def assign_def update_def log_def)

lemma mutateAll_elsewhere:
  assumes "items s a = Some (ShapeRef pa)" and "pa \<noteq> n"
  shows "objs (mutateAll a ms s) n = objs s n \<and> items (mutateAll a ms s) = items s"
  using assms
proof (induction ms arbitrary: s)
  case Nil
  show ?case by (simp add: mutateAll_def)
next
  case (Cons m ms)
  have first: "objs (mutate a m s) n = objs s n" "items (mutate a m s) = items s"
    using mutate_elsewhere [OF Cons.prems] by simp_all
  have "mutateAll a (m # ms) s = mutateAll a ms (mutate a m s)"
    by (simp add: mutateAll_def)
  moreover have "objs (mutateAll a ms (mutate a m s)) n = objs (mutate a m s) n
      \<and> items (mutateAll a ms (mutate a m s)) = items (mutate a m s)"
    using Cons.prems first by (intro Cons.IH) simp_all
  ultimately show ?case
    using first by simp
qed

lemma setAttrs_other:
  "variant (setAttrs kvs sh) = variant sh" "shape_type (setAttrs kvs sh) = shape_type sh"
  "shape_name (setAttrs kvs sh) = shape_name sh" "points (setAttrs kvs sh) = points sh"
  "shape_stroke (setAttrs kvs sh) = shape_stroke sh"
  by (simp_all add: setAttrs_def)

lemma setAttributeNS_other:
  "styleFill (setAttributeNS k v el) = styleFill el" "textContent (setAttributeNS k v el) = textContent el"
  by (simp_all add: setAttributeNS_def)

lemma setAttrs_dom:
  "styleFill (domElement (setAttrs kvs sh)) = styleFill (domElement sh)
   \<and> textContent (domElement (setAttrs kvs sh)) = textContent (domElement sh)"
proof -
  have "styleFill (foldl (\<lambda>el (k, v). setAttributeNS k v el) el kvs) = styleFill el
      \<and> textContent (foldl (\<lambda>el (k, v). setAttributeNS k v el) el kvs) = textContent el" for el
    by (induction kvs arbitrary: el) (auto simp: setAttributeNS_other)
  then show ?thesis
    by (simp add: setAttrs_def)
qed

lemma clone_fresh:
  assumes "items s a = Some (ShapeRef pa)" and "pa \<noteq> nextObj s"
    and "b \<noteq> []" and "items_get s b = None" and "varNamingRule b"
    and "objectTypes (shape_type (objs s pa)) = Some new" and "shape_type (objs s pa) \<noteq> []"
    and "overwritten s (shape_type (objs s pa)) = None"
  shows "returned (clone (Some a) (Some b) s) = Some (Some (nextObj s))"
    and "items (stateOf (clone (Some a) (Some b) s)) = (items s)(b \<mapsto> ShapeRef (nextObj s))"
    and "objs (stateOf (clone (Some a) (Some b) s)) pa = objs s pa"
    and "objs (stateOf (clone (Some a) (Some b) s)) (nextObj s) = copied (objs s pa) (new b)"
  using assms
  by (simp_all add: clone_def getItem_def items_get_def create_def Let_def update_def log_def
      appendChild_def copied_def)


lemma moveTo_keeps:
  "variant (shape_moveTo x y sh) = variant sh \<and> shape_type (shape_moveTo x y sh) = shape_type sh
   \<and> shape_name (shape_moveTo x y sh) = shape_name sh
   \<and> shape_stroke (shape_moveTo x y sh) = shape_stroke sh
   \<and> styleFill (domElement (shape_moveTo x y sh)) = styleFill (domElement sh)
   \<and> textContent (domElement (shape_moveTo x y sh)) = textContent (domElement sh)"
  by (cases "variant sh") (simp_all add: dispatch movers Let_def setAttrs_other setAttrs_dom points0_def)

lemma sizeTo_keeps:
  "variant (shape_sizeTo x y sh) = variant sh \<and> shape_type (shape_sizeTo x y sh) = shape_type sh
   \<and> shape_name (shape_sizeTo x y sh) = shape_name sh
   \<and> shape_stroke (shape_sizeTo x y sh) = shape_stroke sh
   \<and> styleFill (domElement (shape_sizeTo x y sh)) = styleFill (domElement sh)
   \<and> textContent (domElement (shape_sizeTo x y sh)) = textContent (domElement sh)"
  by (cases "variant sh") (simp_all add: dispatch movers Let_def setAttrs_other setAttrs_dom points1_def)

lemma set_fill_keeps:
  "variant (set_fill v sh) = variant sh \<and> shape_type (set_fill v sh) = shape_type sh
   \<and> shape_name (set_fill v sh) = shape_name sh
   \<and> shape_stroke (set_fill v sh) = shape_stroke sh
   \<and> points (set_fill v sh) = points sh
   \<and> textContent (domElement (set_fill v sh)) = textContent (domElement sh)
   \<and> (variant sh \<noteq> Line \<longrightarrow> styleFill (domElement (set_fill v sh)) = v)"
  by (cases "variant sh") (simp_all add: set_fill_def setAttributeNS_other)

lemma setStroke_keeps:
  "variant (Shape_setStroke c w sh) = variant sh \<and> shape_type (Shape_setStroke c w sh) = shape_type sh
   \<and> shape_name (Shape_setStroke c w sh) = shape_name sh
   \<and> points (Shape_setStroke c w sh) = points sh
   \<and> styleFill (domElement (Shape_setStroke c w sh)) = styleFill (domElement sh)
   \<and> textContent (domElement (Shape_setStroke c w sh)) = textContent (domElement sh)"
  by (simp add: Shape_setStroke_def Let_def setAttrs_other setAttrs_dom)

lemma copied_shape:
  assumes "variant dst = variant src" and "stroke_color (shape_stroke src) = Str c"
  shows "variant (copied src dst) = variant dst \<and> shape_type (copied src dst) = shape_type dst
    \<and> shape_name (copied src dst) = shape_name dst
    \<and> points (copied src dst) = points src
    \<and> shape_stroke (copied src dst) = shape_stroke src
    \<and> (variant src \<noteq> Line \<longrightarrow> fill (copied src dst) = fill src)
    \<and> textContent (domElement (copied src dst)) = textContent (domElement dst)"
proof -
  have header: "variant (copied src dst) = variant dst \<and> shape_type (copied src dst) = shape_type dst
      \<and> shape_name (copied src dst) = shape_name dst
      \<and> textContent (domElement (copied src dst)) = textContent (domElement dst)"
    by (simp add: copied_def setStroke_keeps set_fill_keeps sizeTo_keeps moveTo_keeps)
  have pts: "points (copied src dst) = points src"
    by (simp add: copied_def setStroke_keeps set_fill_keeps points_sizeTo points_moveTo
        Point_moveTo_def getters prod_eq_iff)
  have strk: "shape_stroke (copied src dst) = shape_stroke src"
    using assms(2) by (simp add: copied_def Shape_setStroke_def Let_def setAttrs_other Stroke_def)
  have fll: "fill (copied src dst) = fill src" if "variant src \<noteq> Line"
  proof -
    have "fill (copied src dst) = styleFill (domElement (copied src dst))"
      using that assms(1) header by (cases "variant src") (simp_all add: fill_def)
    also have "\<dots> = fill src"
      using that assms(1)
      by (simp add: copied_def setStroke_keeps set_fill_keeps sizeTo_keeps moveTo_keeps)
    finally show ?thesis .
  qed
  from header pts strk fll show ?thesis
    by simp
qed


lemma wellFormed_constructor:
  assumes "wellFormed sh"
  shows "\<exists>new c. objectTypes (shape_type sh) = Some new \<and> shape_type sh \<noteq> []
      \<and> stroke_color (shape_stroke sh) = Str c
      \<and> (\<forall>n. variant (new n) = variant sh \<and> shape_type (new n) = shape_type sh
           \<and> shape_name (new n) = n \<and> textContent (domElement (new n)) = [])"
proof -
  obtain c where colour: "stroke_color (shape_stroke sh) = Str c"
    using assms by (auto simp: wellFormed_def split: jsval.splits)
  have "\<exists>new. objectTypes (shape_type sh) = Some new \<and> shape_type sh \<noteq> []
      \<and> (\<forall>n. variant (new n) = variant sh \<and> shape_type (new n) = shape_type sh
           \<and> shape_name (new n) = n \<and> textContent (domElement (new n)) = [])"
    using assms
    by (auto simp: wellFormed_def objectTypes_def Text_create_def Rectangle_create_def
        Circle_create_def Line_create_def Polygon_create_def Shape_def createElementNS_def)
  with colour show ?thesis
    by blast
qed

text \<open>
  The invariant of the registry holds in every state a page can reach: every command keeps
  it, and so do a line, a run, a click on the run button and a timer that fires.
\<close>

lemma moveBy_keeps:
  "variant (shape_moveBy x y sh) = variant sh \<and> shape_type (shape_moveBy x y sh) = shape_type sh
   \<and> shape_name (shape_moveBy x y sh) = shape_name sh
   \<and> shape_stroke (shape_moveBy x y sh) = shape_stroke sh"
  by (cases "variant sh") (simp_all add: dispatch movers Let_def setAttrs_other points0_def)

lemma sizeBy_keeps:
  "variant (shape_sizeBy x y sh) = variant sh \<and> shape_type (shape_sizeBy x y sh) = shape_type sh
   \<and> shape_name (shape_sizeBy x y sh) = shape_name sh
   \<and> shape_stroke (shape_sizeBy x y sh) = shape_stroke sh"
  by (cases "variant sh") (simp_all add: dispatch movers Let_def setAttrs_other points1_def)

lemma wellFormed_moved:
  "wellFormed (shape_moveTo x y sh) = wellFormed sh" "wellFormed (shape_moveBy x y sh) = wellFormed sh"
  "wellFormed (shape_sizeTo x y sh) = wellFormed sh" "wellFormed (shape_sizeBy x y sh) = wellFormed sh"
  "wellFormed (set_fill v sh) = wellFormed sh" "wellFormed (set_text t sh) = wellFormed sh"
  "wellFormed (Polygon_setPoints ps sh) = wellFormed sh"
  by (simp_all add: wellFormed_def moveTo_keeps moveBy_keeps sizeTo_keeps sizeBy_keeps set_fill_keeps
      set_text_def Polygon_setPoints_def)

lemma wellFormed_stroked:
  "wellFormed sh \<Longrightarrow> wellFormed (Shape_setStroke (val c) w sh)"
  by (cases c) (auto simp: wellFormed_def setStroke_keeps Shape_setStroke_def Let_def
      setAttrs_other Stroke_def split: jsval.splits)

lemma wellFormed_created:
  "objectTypes ty = Some new \<Longrightarrow> wellFormed (new n)"
  by (auto simp: wellFormed_def objectTypes_def Text_create_def Rectangle_create_def
      Circle_create_def Line_create_def Polygon_create_def Shape_def Stroke_def split: if_splits)

lemmas registry_defs =
  registryInv_def getItem_def items_get_def call_def assign_def update_def log_def appendChild_def Let_def

lemma registryInv_log: "registryInv (log m s) = registryInv s"
  by (simp add: registryInv_def log_def)

lemma registryInv_paint: "registryInv s \<Longrightarrow> registryInv (stateOf (paint v c s))"
  by (auto simp: paint_def registry_defs wellFormed_moved split: option.splits ref.splits)


lemma registryInv_writeText: "registryInv s \<Longrightarrow> registryInv (stateOf (writeText v ws s))"
  by (auto simp: writeText_def registry_defs wellFormed_moved split: option.splits ref.splits)

lemma registryInv_setStroke: "registryInv s \<Longrightarrow> registryInv (stateOf (setStroke v c w s))"
  by (auto simp: setStroke_def registry_defs wellFormed_stroked split: option.splits ref.splits)

lemma registryInv_moveTo: "registryInv s \<Longrightarrow> registryInv (stateOf (moveTo v x y s))"
  by (auto simp: moveTo_def registry_defs wellFormed_moved split: option.splits ref.splits)

lemma registryInv_moveBy: "registryInv s \<Longrightarrow> registryInv (stateOf (moveBy v x y s))"
  by (auto simp: moveBy_def registry_defs wellFormed_moved split: option.splits ref.splits)

lemma registryInv_sizeTo: "registryInv s \<Longrightarrow> registryInv (stateOf (sizeTo v x y s))"
  by (auto simp: sizeTo_def registry_defs wellFormed_moved split: option.splits ref.splits)

lemma registryInv_sizeBy: "registryInv s \<Longrightarrow> registryInv (stateOf (sizeBy v x y s))"
  by (auto simp: sizeBy_def registry_defs wellFormed_moved split: option.splits ref.splits)

lemma registryInv_setPoints: "registryInv s \<Longrightarrow> registryInv (stateOf (setPoints v ps s))"
  by (auto simp: setPoints_def registry_defs wellFormed_moved split: option.splits ref.splits)

lemma registryInv_setWith: "registryInv s \<Longrightarrow> registryInv (stateOf (setWith v s))"
  by (auto simp: setWith_def registry_defs split: option.splits ref.splits)

lemma registryInv_remove: "registryInv s \<Longrightarrow> registryInv (stateOf (remove v s))"
  by (auto simp: remove_def registry_defs split: option.splits ref.splits if_splits)

lemma registryInv_wait: "registryInv s \<Longrightarrow> registryInv (stateOf (wait n u s))"
  by (simp add: wait_def registry_defs)

lemma registryInv_reset: "registryInv (reset s)"
proof -
  have "items (foldl (\<lambda>s t. clearTimeout t s) s0 ts) = items s0" for s0 ts
    by (induction ts arbitrary: s0) (simp_all add: clearTimeout_def)
  then show ?thesis
    by (simp add: reset_def Let_def registryInv_def)
qed

lemma callOnTypes_no_shape: "callOnTypes m n s \<noteq> Some (ShapeRef p)"
  by (simp add: callOnTypes_def)

lemma registryInv_junk:
  assumes "registryInv s" and "\<And>p. r \<noteq> ShapeRef p"
  shows "registryInv (s\<lparr>items := (items s)(n \<mapsto> r), withObjName := w\<rparr>)"
  using assms by (simp add: registryInv_def)

lemma registryInv_new:
  assumes "registryInv s" and "objectTypes ty = Some new"
  shows "registryInv (log m (appendChild (nextObj s)
            (s\<lparr>objs := (objs s)(nextObj s := new n), nextObj := Suc (nextObj s),
               items := (items s)(n \<mapsto> ShapeRef (nextObj s)), withObjName := w\<rparr>)))"
  using assms wellFormed_created [OF assms(2), of n]
  by (auto simp: registryInv_def log_def appendChild_def less_Suc_eq)

lemma registryInv_create:
  assumes "registryInv s"
  shows "registryInv (stateOf (create v ty s))"
proof -
  obtain n s0 where ns: "(if truthy v then (str v, s) else generateName s) = (n, s0)"
    by fastforce
  have inv0: "registryInv s0"
    using ns assms by (auto simp: generateName_def registryInv_def split: if_splits)
  show ?thesis
  proof (cases "items_get s0 n \<noteq> None \<or> \<not> varNamingRule n \<or> \<not> truthy ty")
    case True
    then show ?thesis
      using inv0 ns by (auto simp: create_def registryInv_log)
  next
    case False
    note checked = False
    show ?thesis
    proof (cases "overwritten s0 (str ty)")
      case (Some w)
      then show ?thesis
        using checked inv0 ns by (simp add: create_def registryInv_log)
    next
      case None
      note over = None
      show ?thesis
      proof (cases "objectTypes (str ty)")
        case (Some new)
        have "registryInv (log (Created (str ty) n) (appendChild (nextObj s0)
                (s0\<lparr>objs := (objs s0)(nextObj s0 := new n), nextObj := Suc (nextObj s0),
                   items := (items s0)(n \<mapsto> ShapeRef (nextObj s0)),
                   withObjName := Some (Some n)\<rparr>)))"
          using inv0 Some by (rule registryInv_new)
        then show ?thesis
          using checked over Some ns by (simp add: create_def Let_def)
      next
        case None
        note noType = None
        show ?thesis
        proof (cases "inherited s0 (str ty)")
          case None
          then show ?thesis
            using checked over noType inv0 ns by (simp add: create_def registryInv_log)
        next
          case (Some r)
          note found = Some
          show ?thesis
          proof (cases "callOnTypes (str ty) n s0")
            case None
            then show ?thesis
              using checked over noType found inv0 ns by (cases r) (simp_all add: create_def)
          next
            case (Some q)
            have "registryInv (s0\<lparr>items := (items s0)(n \<mapsto> q), withObjName := Some (Some n)\<rparr>)"
              using inv0 Some callOnTypes_no_shape by (intro registryInv_junk) auto
            then show ?thesis
              using checked over noType found Some inv0 ns
              by (cases r) (simp_all add: create_def Let_def)
          qed
        qed
      qed
    qed
  qed
qed


lemma wellFormed_colour: "wellFormed sh \<Longrightarrow> \<exists>c. stroke_color (shape_stroke sh) = Str c"
  by (cases "stroke_color (shape_stroke sh)") (simp_all add: wellFormed_def)

lemma create_Some:
  assumes "create v ty s = Return (Some b) s2"
  shows "b = nextObj s \<and> (\<forall>k p. items s k = Some (ShapeRef p) \<longrightarrow> items s2 k = Some (ShapeRef p))
    \<and> (\<forall>p. p \<noteq> b \<longrightarrow> objs s2 p = objs s p)"
proof -
  obtain n s0 where ns: "(if truthy v then (str v, s) else generateName s) = (n, s0)"
    by fastforce
  have same: "items s0 = items s" "objs s0 = objs s" "nextObj s0 = nextObj s"
    using ns by (auto simp: generateName_def split: if_splits)
  have checked: "items_get s0 n = None" "varNamingRule n" "truthy ty"
    using assms ns by (auto simp: create_def split: if_splits)
  have over: "overwritten s0 (str ty) = None"
    using assms ns checked by (cases "overwritten s0 (str ty)") (auto simp: create_def split: if_splits)
  obtain new where new: "objectTypes (str ty) = Some new"
  proof (cases "objectTypes (str ty)")
    case None
    have False
    proof (cases "inherited s0 (str ty)")
      case None
      then show False
        using assms ns checked over \<open>objectTypes (str ty) = None\<close> by (simp add: create_def)
    next
      case (Some r)
      then show False
        using assms ns checked over \<open>objectTypes (str ty) = None\<close>
        by (cases r; cases "callOnTypes (str ty) n s0") (simp_all add: create_def Let_def)
    qed
    then show ?thesis ..
  next
    case (Some new)
    then show ?thesis using that by blast
  qed
  have free: "items s0 n \<noteq> Some (ShapeRef p)" for p
    using checked(1) by (auto simp: items_get_def split: option.splits if_splits)
  have "b = nextObj s0" and "items s2 = (items s0)(n \<mapsto> ShapeRef (nextObj s0))"
    and "objs s2 = (objs s0)(nextObj s0 := new n)"
    using assms ns checked over new
    by (auto simp: create_def Let_def log_def appendChild_def)
  then show ?thesis
    using same free by auto
qed

lemma registryInv_clone:
  assumes "registryInv s"
  shows "registryInv (stateOf (clone v w s))"
proof (cases "items_get s (str v)")
  case None
  then show ?thesis
    using assms by (simp add: clone_def getItem_def registryInv_log)
next
  case (Some r)
  have other: "registryInv (stateOf (case create w None s of Throw e s2 \<Rightarrow> Throw e s2 | Return x s2 \<Rightarrow> Return None s2))"
    using registryInv_create [OF assms, of w None] by (cases "create w None s") simp_all
  show ?thesis
  proof (cases r)
    case (ShapeRef a)
    then have registered: "items s (str v) = Some (ShapeRef a)"
      using Some by (auto simp: items_get_def inherited_def split: option.splits if_splits)
    show ?thesis
    proof (cases "create w (Some (shape_type (objs s a))) s")
      case (Throw e s2)
      then show ?thesis
        using registryInv_create [OF assms, of w "Some (shape_type (objs s a))"] Some ShapeRef
        by (simp add: clone_def getItem_def)
    next
      case (Return made s2)
      have inv2: "registryInv s2"
        using registryInv_create [OF assms, of w "Some (shape_type (objs s a))"] Return by simp
      show ?thesis
      proof (cases made)
        case None
        then show ?thesis
          using inv2 Return Some ShapeRef by (simp add: clone_def getItem_def)
      next
        case (Some b)
        note made = create_Some [OF Return [unfolded Some]]
        have below: "a < nextObj s"
          using registered assms by (auto simp: registryInv_def)
        have new: "b = nextObj s" and kept: "items s2 (str v) = Some (ShapeRef a)"
          using made registered by auto
        have apart: "a \<noteq> b"
          using below new by simp
        have same: "objs s2 a = objs s a"
          using made apart by simp
        have "wellFormed (objs s2 a)"
          using inv2 kept by (simp add: registryInv_def)
        then obtain c where c: "stroke_color (shape_stroke (objs s2 a)) = val (Some c)"
          using wellFormed_colour by fastforce
        have "registryInv (stateOf (clone v w s))"
          using inv2 apart c Return Some \<open>items_get s (str v) = Some r\<close> ShapeRef
          by (auto simp: clone_def getItem_def update_def log_def appendChild_def Let_def
              registryInv_def wellFormed_moved wellFormed_stroked [of _ "Some c", simplified])
        then show ?thesis .
      qed
    qed
  qed (use Some other in \<open>simp_all add: clone_def getItem_def\<close>)
qed


lemmas registry_handlers =
  registryInv_paint registryInv_remove registryInv_create registryInv_clone registryInv_writeText
  registryInv_sizeTo registryInv_moveTo registryInv_setStroke registryInv_setWith registryInv_moveBy
  registryInv_setPoints registryInv_sizeBy registryInv_wait registryInv_reset

lemma registryInv_command:
  assumes "commands k = Some command" and "registryInv s"
  shows "registryInv (stateOf (command ws s))"
  using assms
  by (auto simp: commands_def stateOf_plain registry_handlers split: if_splits)

lemma registryInv_execLine:
  assumes "registryInv s"
  shows "registryInv (stateOf (execLine line s))"
proof (cases "line = []")
  case True
  then show ?thesis
    using assms by (simp add: execLine_def registryInv_def)
next
  case False
  define s2 where "s2 = log (Echo line) (s\<lparr>lineNumber := lineNumber s + 1\<rparr>)"
  define action where
    "action = str (if elemAt (cleanCommand line s2) 0 = Some '' '' then elemAt (cleanCommand line s2) 1
                   else elemAt (cleanCommand line s2) 0)"
  have inv2: "registryInv s2"
    using assms by (simp add: s2_def registryInv_def log_def)
  have line: "execLine line s =
      (case commands action of
         Some command \<Rightarrow> command (cleanCommand line s2) s2
       | None \<Rightarrow> if inherited s2 action \<noteq> None then callInherited action s2
                 else Return Value (log (UnknownCommand action) s2))"
    unfolding execLine_def Let_def s2_def action_def by (simp only: False not_False_eq_True if_True)
  show ?thesis
  proof (cases "commands action")
    case (Some command)
    then show ?thesis
      using line registryInv_command [OF Some inv2] by simp
  next
    case None
    then show ?thesis
      using line inv2 by (auto simp: callInherited_def registryInv_log)
  qed
qed

lemma registryInv_forEachPromise:
  "registryInv s \<Longrightarrow> registryInv (endState (forEachPromise ls s))"
proof (induction ls arbitrary: s)
  case Nil
  then show ?case by simp
next
  case (Cons line rest)
  have step: "registryInv (stateOf (execLine line s))"
    using Cons.prems by (rule registryInv_execLine)
  show ?case
  proof (cases "execLine line s")
    case (Throw e s1)
    then show ?thesis using step by simp
  next
    case (Return v s1)
    then show ?thesis
      using step Cons.IH [of s1] by (cases v) simp_all
  qed
qed

lemma globals_settle: "globals (settle r pg) = endState r"
  by (cases r) simp_all

lemma registryInv_step:
  assumes "registryInv (globals pg)"
  shows "registryInv (globals (step e pg))"
proof (cases e)
  case (Run script)
  have "registryInv ((reset (globals pg))\<lparr>console := []\<rparr>)"
    using registryInv_reset [of "globals pg"] by (simp add: registryInv_def)
  then show ?thesis
    using Run by (simp add: render_run globals_settle registryInv_forEachPromise)
next
  case (Fire t)
  have "registryInv (log m (clearTimeout t (globals pg)))" for m
    using assms by (simp add: registryInv_def log_def clearTimeout_def)
  then show ?thesis
    using Fire assms
    by (auto simp: fire_def Let_def globals_settle registryInv_forEachPromise split: option.splits)
qed

lemma registryInv_reachable: "registryInv (globals (steps es (initial gen)))"
proof -
  have start: "registryInv (globals (initial gen))"
    by (simp add: registryInv_def initial_def)
  have "registryInv (globals pg) \<Longrightarrow> registryInv (globals (steps es pg))" for pg
  proof (induction es arbitrary: pg)
    case Nil
    then show ?case by (simp add: steps_def)
  next
    case (Cons e es)
    have "steps (e # es) pg = steps es (step e pg)"
      by (simp add: steps_def)
    then show ?case
      using Cons.IH [OF registryInv_step [OF Cons.prems]] by simp
  qed
  with start show ?thesis by blast
qed

text \<open>
  Cloning onto a name that is in use is a name collision and is rejected like any other:
  \<open>clone box other\<close> with \<open>other\<close> registered returns nothing, makes no new shape and logs
  DuplicateName; \<open>other\<close> remains the line it was.
\<close>

lemma clone_onto_existing_rejected:
  "items twoShapes ''box'' = Some (ShapeRef 0) \<and> items twoShapes ''other'' = Some (ShapeRef 1)
   \<and> returned (clone (Some ''box'') (Some ''other'') twoShapes) = Some None
   \<and> nextObj (stateOf (clone (Some ''box'') (Some ''other'') twoShapes)) = nextObj twoShapes
   \<and> variant (objs (stateOf (clone (Some ''box'') (Some ''other'') twoShapes)) 1) = Line
   \<and> variant (objs twoShapes 0) = Rectangle
   \<and> message (last (console (stateOf (clone (Some ''box'') (Some ''other'') twoShapes))))
       = DuplicateName ''other''"
  by code_simp

text \<open>
  What \<open>clone\<close> copies. Let \<open>a\<close> name an existing shape and let \<open>b\<close> be a name that \<open>create\<close>
  accepts (not empty, not in use, passing its test of names), in a state that satisfies the
  invariant of the registry, as every reachable state does, and in which the table of
  object types still has the constructor for the type of \<open>a\<close>. Then \<open>clone(a, b)\<close> returns a
  new shape, registered under \<open>b\<close>, of the class and type of \<open>a\<close> and named \<open>b\<close>; its
  origin, extent and stroke are those \<open>a\<close> has at that time, and so is its fill when the
  shape is not a Line; its text is empty; \<open>a\<close> itself is unchanged. Whatever moves, sizes,
  paints and strokes are then applied to \<open>a\<close>, the state of \<open>b\<close> stays what it was.
  \<open>pa\<close> is the object of \<open>a\<close>, and the new object is \<open>nextObj s\<close>.
\<close>

lemma clone_copies:
  assumes "registryInv s" and "items s a = Some (ShapeRef pa)"
    and "b \<noteq> []" and "items_get s b = None" and "varNamingRule b"
    and "overwritten s (shape_type (objs s pa)) = None"
  shows "returned (clone (Some a) (Some b) s) = Some (Some (nextObj s))
    \<and> items (stateOf (clone (Some a) (Some b) s)) b = Some (ShapeRef (nextObj s))
    \<and> items (stateOf (clone (Some a) (Some b) s)) a = Some (ShapeRef pa)
    \<and> nextObj s \<noteq> pa \<and> a \<noteq> b
    \<and> objs (stateOf (clone (Some a) (Some b) s)) pa = objs s pa
    \<and> variant (objs (stateOf (clone (Some a) (Some b) s)) (nextObj s)) = variant (objs s pa)
    \<and> shape_type (objs (stateOf (clone (Some a) (Some b) s)) (nextObj s)) = shape_type (objs s pa)
    \<and> shape_name (objs (stateOf (clone (Some a) (Some b) s)) (nextObj s)) = b
    \<and> points (objs (stateOf (clone (Some a) (Some b) s)) (nextObj s)) = points (objs s pa)
    \<and> shape_stroke (objs (stateOf (clone (Some a) (Some b) s)) (nextObj s)) = shape_stroke (objs s pa)
    \<and> (variant (objs s pa) \<noteq> Line \<longrightarrow>
          fill (objs (stateOf (clone (Some a) (Some b) s)) (nextObj s)) = fill (objs s pa))
    \<and> textContent (domElement (objs (stateOf (clone (Some a) (Some b) s)) (nextObj s))) = []
    \<and> objs (mutateAll a ms (stateOf (clone (Some a) (Some b) s))) (nextObj s)
        = objs (stateOf (clone (Some a) (Some b) s)) (nextObj s)"
proof -
  let ?s' = "stateOf (clone (Some a) (Some b) s)"
  have allocated: "pa < nextObj s" and formed: "wellFormed (objs s pa)"
    using assms(1,2) by (simp_all add: registryInv_def)
  from formed obtain new c where
    new: "objectTypes (shape_type (objs s pa)) = Some new" and typed: "shape_type (objs s pa) \<noteq> []"
    and colour: "stroke_color (shape_stroke (objs s pa)) = Str c"
    and made: "\<And>n. variant (new n) = variant (objs s pa) \<and> shape_type (new n) = shape_type (objs s pa)
           \<and> shape_name (new n) = n \<and> textContent (domElement (new n)) = []"
    using wellFormed_constructor by blast
  have apart: "pa \<noteq> nextObj s"
    using allocated by simp
  have names: "a \<noteq> b"
    using assms(2,4) by (auto simp: items_get_def)
  note result = clone_fresh [OF assms(2) apart assms(3,4,5) new typed assms(6)]
  have registered: "items ?s' b = Some (ShapeRef (nextObj s))" "items ?s' a = Some (ShapeRef pa)"
    using names assms(2) by (simp_all add: result(2))
  have shape: "variant (copied (objs s pa) (new b)) = variant (new b)
    \<and> shape_type (copied (objs s pa) (new b)) = shape_type (new b)
    \<and> shape_name (copied (objs s pa) (new b)) = shape_name (new b)
    \<and> points (copied (objs s pa) (new b)) = points (objs s pa)
    \<and> shape_stroke (copied (objs s pa) (new b)) = shape_stroke (objs s pa)
    \<and> (variant (objs s pa) \<noteq> Line \<longrightarrow> fill (copied (objs s pa) (new b)) = fill (objs s pa))
    \<and> textContent (domElement (copied (objs s pa) (new b))) = textContent (domElement (new b))"
    using made [of b] colour by (intro copied_shape) simp_all
  have later: "objs (mutateAll a ms ?s') (nextObj s) = objs ?s' (nextObj s)"
    using mutateAll_elsewhere [OF registered(2) apart] by simp
  from result(1) registered apart names result(3) shape made [of b] later show ?thesis
    by (simp add: result(4))
qed

lemma paint_changes:
  assumes "items s a = Some (ShapeRef pa)" and "variant (objs s pa) \<noteq> Line"
  shows "fill (objs (mutateAll a [DoPaint (Some c)] s) pa) = Str c"
  using assms
  by (cases "variant (objs s pa)")
     (simp_all add: mutateAll_def paint_def getItem_def items_get_def assign_def update_def log_def
        set_fill_def fill_def)

text \<open>
  A circle painted yellow is cloned with its fill, and painting the circle red afterwards
  leaves the clone yellow.
\<close>

lemma clone_circle_example:
  "returned (clone (Some ''sun'') (Some ''moon'') sunny) = Some (Some 1)
   \<and> fill (objs (stateOf (clone (Some ''sun'') (Some ''moon'') sunny)) 1) = Str ''yellow''
   \<and> objs (mutateAll ''sun'' [DoPaint (Some ''red'')]
         (stateOf (clone (Some ''sun'') (Some ''moon'') sunny))) 1
       = objs (stateOf (clone (Some ''sun'') (Some ''moon'') sunny)) 1
   \<and> fill (objs (mutateAll ''sun'' [DoPaint (Some ''red'')]
         (stateOf (clone (Some ''sun'') (Some ''moon'') sunny))) 0) = Str ''red''"
proof -
  have "registryInv (globals started)"
    by (simp add: started_def initial_def registryInv_def)
  then have inv: "registryInv sunny"
    unfolding sunny_def by (rule registryInv_forEachPromise)
  have source: "items sunny ''sun'' = Some (ShapeRef 0)"
    by code_simp
  have free: "items_get sunny ''moon'' = None"
    by code_simp
  have valid: "varNamingRule ''moon''"
    by code_simp
  have given: "nextObj sunny = 1 \<and> fill (objs sunny 0) = Str ''yellow'' \<and> variant (objs sunny 0) = Circle
      \<and> shape_type (objs sunny 0) = ''ellipse'' \<and> overwritten sunny ''ellipse'' = None"
    by code_simp
  have kept: "overwritten sunny (shape_type (objs sunny 0)) = None"
    using given by simp
  note cloned = clone_copies [OF inv source _ free valid kept, of "[DoPaint (Some ''red'')]"]
  have changed: "fill (objs (mutateAll ''sun'' [DoPaint (Some ''red'')]
            (stateOf (clone (Some ''sun'') (Some ''moon'') sunny))) 0) = Str ''red''"
    using cloned given by (intro paint_changes) simp_all
  from cloned given changed
  show ?thesis by simp
qed

text \<open>
  On a Line the fill is the \<open>stroke\<close> attribute. \<open>clone\<close> copies the fill and then the
  stroke, and \<open>setStroke\<close> writes that attribute again: what the four calls leave as the
  fill of the new line is the colour of the source's stroke.
\<close>

lemma copied_line_fill:
  assumes "variant dst = Line" and "stroke_color (shape_stroke src) = Str c"
  shows "fill (copied src dst) = Str c"
proof -
  have "variant (copied src dst) = Line"
    using assms(1) by (simp add: copied_def setStroke_keeps set_fill_keeps sizeTo_keeps moveTo_keeps)
  then have "fill (copied src dst) = getAttributeNS ''stroke'' (domElement (copied src dst))"
    by (simp add: fill_def)
  also have "\<dots> = Str c"
    using assms(2)
    by (simp add: copied_def Shape_setStroke_def Let_def setAttrs_def getAttributeNS_def
        setAttributeNS_def update_conv' Stroke_def)
  finally show ?thesis .
qed

text \<open>
  C8: \<open>clone\<close> does not give the clone of a Line the fill of its source. The script
  \<open>new line ln\<close>, \<open>paint ln red\<close>, \<open>clone ln copy\<close>: both names are valid and distinct, \<open>ln\<close>
  names a shape and \<open>copy\<close> is free. After the first two lines the line \<open>ln\<close> has the fill
  \<open>red\<close>. \<open>clone\<close> then returns a new Line registered under \<open>copy\<close>, with the origin, the
  extent and the stroke of \<open>ln\<close>, but its fill is \<open>transparent\<close>, the colour of the stroke,
  and not \<open>red\<close>: the assignment \<open>toObject.fill = fromObject.fill\<close> was made and the call
  of \<open>setStroke\<close> after it wrote over its result.
\<close>

theorem clone_line_fill_lost:
  "items redLine ''ln'' = Some (ShapeRef 0)
   \<and> variant (objs redLine 0) = Line
   \<and> fill (objs redLine 0) = Str ''red''
   \<and> statedNamingRule ''ln'' \<and> statedNamingRule ''copy''
   \<and> varNamingRule ''ln'' \<and> varNamingRule ''copy''
   \<and> items_get redLine ''copy'' = None
   \<and> returned (clone (Some ''ln'') (Some ''copy'') redLine) = Some (Some 1)
   \<and> items (stateOf (clone (Some ''ln'') (Some ''copy'') redLine)) ''copy'' = Some (ShapeRef 1)
   \<and> variant (objs (stateOf (clone (Some ''ln'') (Some ''copy'') redLine)) 1) = Line
   \<and> points (objs (stateOf (clone (Some ''ln'') (Some ''copy'') redLine)) 1) = points (objs redLine 0)
   \<and> shape_stroke (objs (stateOf (clone (Some ''ln'') (Some ''copy'') redLine)) 1)
       = shape_stroke (objs redLine 0)
   \<and> fill (objs (stateOf (clone (Some ''ln'') (Some ''copy'') redLine)) 0) = Str ''red''
   \<and> fill (objs (stateOf (clone (Some ''ln'') (Some ''copy'') redLine)) 1) = Str ''transparent''
   \<and> fill (objs (stateOf (clone (Some ''ln'') (Some ''copy'') redLine)) 1)
       \<noteq> fill (objs redLine 0)"
proof -
  have "registryInv (globals started)"
    by (simp add: started_def initial_def registryInv_def)
  then have inv: "registryInv redLine"
    unfolding redLine_def by (rule registryInv_forEachPromise)
  have source: "items redLine ''ln'' = Some (ShapeRef 0)"
    by code_simp
  have free: "items_get redLine ''copy'' = None"
    by code_simp
  have names: "statedNamingRule ''ln'' \<and> statedNamingRule ''copy''
      \<and> varNamingRule ''ln'' \<and> varNamingRule ''copy''"
    by code_simp
  have facts: "nextObj redLine = 1 \<and> fill (objs redLine 0) = Str ''red''
      \<and> variant (objs redLine 0) = Line \<and> shape_type (objs redLine 0) = ''line''
      \<and> stroke_color (shape_stroke (objs redLine 0)) = Str ''transparent''
      \<and> overwritten redLine ''line'' = None"
    by code_simp
  have kept: "overwritten redLine (shape_type (objs redLine 0)) = None"
    using facts by simp
  have new: "objectTypes (shape_type (objs redLine 0)) = Some Line_create"
    using facts by (simp add: objectTypes_def)
  have typed: "shape_type (objs redLine 0) \<noteq> []"
    using facts by simp
  have apart: "(0::nat) \<noteq> nextObj redLine"
    using facts by simp
  have "objs (stateOf (clone (Some ''ln'') (Some ''copy'') redLine)) (nextObj redLine)
      = copied (objs redLine 0) (Line_create ''copy'')"
    using source apart free names new typed kept by (intro clone_fresh(4)) simp_all
  moreover have "fill (copied (objs redLine 0) (Line_create ''copy'')) = Str ''transparent''"
    using facts by (intro copied_line_fill) (simp_all add: Line_create_def Shape_def)
  ultimately have lost: "fill (objs (stateOf (clone (Some ''ln'') (Some ''copy'') redLine)) 1)
      = Str ''transparent''"
    using facts by simp
  note cloned = clone_copies [OF inv source _ free _ kept, of "[]"]
  from cloned names source free facts lost
  show ?thesis by simp
qed
end
